theory Spec2Isabelle
  imports Main "HOL-Library.Word" "HOL-Library.Monad_Syntax"
begin

section \<open>JavaScript strings and values\<close>

text \<open>
  A JavaScript string is a sequence of UTF-16 code units, and \<open>s.length\<close> counts code
  units. The literals of \<open>functions/index.js\<close> are ASCII; \<open>lit\<close> embeds them.
\<close>

type_synonym code_unit = "16 word"
type_synonym jsstring = "code_unit list"

definition lit :: "string \<Rightarrow> jsstring" where
  "lit s = map of_char s"

text \<open>
  The payload of a callable function is decoded JSON: any of the values below, never a
  function. A number is kept as its \<open>ToString\<close> rendering, which together with its
  truthiness is all the handler can observe of it; the falsy numbers \<open>+0\<close>, \<open>-0\<close> and
  \<open>NaN\<close> render as \<open>0\<close> and \<open>NaN\<close>, and no other number does. Objects are plain: an
  association list of their own properties, looked up by \<open>map_of\<close>.
\<close>

datatype jsval =
    Undefined
  | Null
  | Bool bool
  | Num jsstring
  | Str jsstring
  | Arr "jsval list"
  | Obj "(jsstring \<times> jsval) list"

text \<open>
  What a handler can throw: an \<open>HttpsError\<close> with its code and message, a
  \<open>TypeError\<close> or \<open>RangeError\<close> of the runtime, or an error raised by one of the two
  SDKs (the provider client, the document store), which is never an instance of
  \<open>HttpsError\<close>.
\<close>

datatype js_error =
    HttpsError jsstring jsstring
  | TypeError
  | RangeError
  | ExternalError jsstring

text \<open>\<open>ToBoolean\<close>, as used by \<open>!question\<close>.\<close>

fun truthy :: "jsval \<Rightarrow> bool" where
  "truthy Undefined = False"
| "truthy Null = False"
| "truthy (Bool b) = b"
| "truthy (Num r) = (r \<noteq> lit ''0'' \<and> r \<noteq> lit ''NaN'')"
| "truthy (Str s) = (s \<noteq> [])"
| "truthy (Arr xs) = True"
| "truthy (Obj fs) = True"

text \<open>
  Reading a property that no built-in prototype defines (\<open>articleId\<close>, \<open>question\<close>,
  \<open>articleContext\<close>, \<open>headline\<close>, \<open>source\<close>, \<open>summary\<close>, \<open>bullets\<close>, \<open>text\<close>): on
  \<open>undefined\<close> and \<open>null\<close> it throws, on an object it is the own property or
  \<open>undefined\<close>, on every other value it is \<open>undefined\<close>.
\<close>

fun get :: "jsval \<Rightarrow> jsstring \<Rightarrow> js_error + jsval" where
  "get Undefined k = Inl TypeError"
| "get Null k = Inl TypeError"
| "get (Obj fs) k = Inr (case map_of fs k of None \<Rightarrow> Undefined | Some v \<Rightarrow> v)"
| "get v k = Inr Undefined"

text \<open>
  \<open>ToString\<close>, as applied by a template literal. An array is its elements joined by
  commas, \<open>undefined\<close> and \<open>null\<close> elements rendering as the empty string. A plain
  object is \<open>[object Object]\<close>, unless it has an own property \<open>toString\<close>: that value is
  decoded JSON, hence not callable, and the conversion throws.
\<close>

fun to_string :: "jsval \<Rightarrow> js_error + jsstring"
  and join_elements :: "jsval list \<Rightarrow> js_error + jsstring"
  and element_string :: "jsval \<Rightarrow> js_error + jsstring" where
  "to_string Undefined = Inr (lit ''undefined'')"
| "to_string Null = Inr (lit ''null'')"
| "to_string (Bool b) = Inr (if b then lit ''true'' else lit ''false'')"
| "to_string (Num r) = Inr r"
| "to_string (Str s) = Inr s"
| "to_string (Arr xs) = join_elements xs"
| "to_string (Obj fs) =
     (if lit ''toString'' \<in> set (map fst fs) then Inl TypeError
      else Inr (lit ''[object Object]''))"
| "join_elements [] = Inr []"
| "join_elements [x] = element_string x"
| "join_elements (x # y # ys) =
     (case element_string x of
        Inl e \<Rightarrow> Inl e
      | Inr s \<Rightarrow>
          (case join_elements (y # ys) of
             Inl e \<Rightarrow> Inl e
           | Inr r \<Rightarrow> Inr (s @ lit '','' @ r)))"
| "element_string Undefined = Inr []"
| "element_string Null = Inr []"
| "element_string v = to_string v"

text \<open>
  \<open>String.prototype.trim\<close> removes the white space and line terminator code units of
  ECMAScript from both ends.
\<close>

definition is_whitespace :: "code_unit \<Rightarrow> bool" where
  "is_whitespace c =
     (c \<in> set [0x0009, 0x000A, 0x000B, 0x000C, 0x000D, 0x0020, 0x00A0, 0x1680,
               0x2028, 0x2029, 0x202F, 0x205F, 0x3000, 0xFEFF]
      \<or> (0x2000 \<le> c \<and> c \<le> 0x200A))"

definition trim :: "jsstring \<Rightarrow> jsstring" where
  "trim s = rev (dropWhile is_whitespace (rev (dropWhile is_whitespace s)))"

text \<open>\<open>Array.prototype.join\<close> on strings.\<close>

fun join :: "jsstring \<Rightarrow> jsstring list \<Rightarrow> jsstring" where
  "join sep [] = []"
| "join sep [x] = x"
| "join sep (x # y # ys) = x @ sep @ join sep (y # ys)"

section \<open>The data of the handlers\<close>

text \<open>
  The payload of the health check (line 106). Its field \<open>timestamp\<close> shares its name
  with a field of the interaction record below, and is written
  \<open>health_payload.timestamp\<close>.
\<close>

record health_payload =
  status :: jsstring
  timestamp :: jsstring

text \<open>The parameters of \<open>anthropic.messages.create\<close> (lines 63-73).\<close>

record message_param =
  role :: jsstring
  content :: jsstring

record create_params =
  model :: jsstring
  max_tokens :: nat
  messages :: "message_param list"
  system :: jsstring

text \<open>
  The provider's reply: an ordered sequence of content blocks. A text block has a
  \<open>text\<close> field; a block of any other kind has none.
\<close>

datatype content_block = TextBlock jsstring | NonTextBlock

datatype provider_message = Message (content_blocks: "content_block list")

text \<open>
  The document added to the collection \<open>ai_interactions\<close> (lines 78-84). The timestamp
  is the sentinel \<open>FieldValue.serverTimestamp()\<close>: the store assigns the time of the write.
\<close>

datatype field_value = ServerTimestamp

record interaction =
  articleId :: jsval
  question :: jsval
  responseLength :: nat
  timestamp :: field_value
  userId :: jsstring

record followup_response =
  success :: bool
  response :: jsstring

text \<open>The caller's identity, attached to the invocation by the platform.\<close>

record auth_data =
  uid :: jsstring

record callable_context =
  auth :: "auth_data option"

text \<open>
  What one invocation can change: the interaction log, the requests sent to the provider
  and the operational log written by \<open>console.error\<close>.
\<close>

record world =
  ai_interactions :: "interaction list"
  provider_requests :: "create_params list"
  console_errors :: "js_error list"

text \<open>
  What the two external services do during one invocation: the provider resolves with a
  message or rejects, and the store accepts the document or rejects it.
\<close>

record services =
  create_reply :: "create_params \<Rightarrow> jsstring + provider_message"
  add_rejects :: "interaction \<Rightarrow> jsstring option"

section \<open>askFollowup\<close>

text \<open>Line 30: destructuring \<open>undefined\<close> or \<open>null\<close> throws.\<close>

definition destructure :: "jsval \<Rightarrow> js_error + (jsval \<times> jsval \<times> jsval)" where
  "destructure data =
     (case get data (lit ''articleId'') of
        Inl e \<Rightarrow> Inl e
      | Inr a \<Rightarrow>
          (case get data (lit ''question'') of
             Inl e \<Rightarrow> Inl e
           | Inr q \<Rightarrow>
               (case get data (lit ''articleContext'') of
                  Inl e \<Rightarrow> Inl e
                | Inr c \<Rightarrow> Inr (a, q, c))))"

definition question_required :: js_error where
  "question_required = HttpsError (lit ''invalid-argument'') (lit ''Question is required'')"

definition question_too_long :: js_error where
  "question_too_long =
     HttpsError (lit ''invalid-argument'') (lit ''Question too long (max 500 characters)'')"

definition failed_to_generate :: js_error where
  "failed_to_generate = HttpsError (lit ''internal'') (lit ''Failed to generate response'')"

text \<open>
  Lines 32-38. A truthy question that is not a string has no method \<open>trim\<close>, and calling
  it throws a \<open>TypeError\<close>. A question that passes is a string, which is returned.
\<close>

definition check_question :: "jsval \<Rightarrow> js_error + jsstring" where
  "check_question q =
     (if \<not> truthy q then Inl question_required
      else
        (case q of
           Str s \<Rightarrow>
             if length (trim s) = 0 then Inl question_required
             else if length s > 500 then Inl question_too_long
             else Inr s
         | _ \<Rightarrow> Inl TypeError))"

definition systemPrompt :: jsstring where
  "systemPrompt = lit (
     ''You are a senior mining industry analyst assistant for Chole, a mining news platform. \<newline>'' @
     ''You provide expert-level analysis and answers about mining industry news.\<newline>'' @
     ''\<newline>'' @
     ''When answering:\<newline>'' @
     ''- Be specific with numbers, companies, and technical details\<newline>'' @
     ''- Provide industry context and implications\<newline>'' @
     ''- Keep responses concise but informative (2-4 paragraphs max)\<newline>'' @
     ''- If you don't know something, say so rather than speculating\<newline>'' @
     ''- Reference specific data points from the article when relevant'')"

text \<open>\<open>${v.k}\<close> in a template literal: read the property, convert it to a string.\<close>

definition interpolate :: "jsval \<Rightarrow> jsstring \<Rightarrow> js_error + jsstring" where
  "interpolate v k = (case get v k of Inl e \<Rightarrow> Inl e | Inr x \<Rightarrow> to_string x)"

text \<open>The callback of line 56, \<open>b => `- ${b.text}`\<close>, and \<open>map\<close> with it.\<close>

definition bullet_line :: "jsval \<Rightarrow> js_error + jsstring" where
  "bullet_line b =
     (case interpolate b (lit ''text'') of Inl e \<Rightarrow> Inl e | Inr t \<Rightarrow> Inr (lit ''- '' @ t))"

fun bullet_lines :: "jsval list \<Rightarrow> js_error + jsstring list" where
  "bullet_lines [] = Inr []"
| "bullet_lines (b # bs) =
     (case bullet_line b of
        Inl e \<Rightarrow> Inl e
      | Inr l \<Rightarrow> (case bullet_lines bs of Inl e \<Rightarrow> Inl e | Inr ls \<Rightarrow> Inr (l # ls)))"

definition no_bullets :: jsstring where
  "no_bullets = lit ''No bullet points available''"

text \<open>
  Line 56. The optional chain yields \<open>undefined\<close> when \<open>bullets\<close> is \<open>undefined\<close> or
  \<open>null\<close>; only an array has \<open>map\<close>, and calling it on anything else throws. The
  placeholder stands in whenever the left operand of \<open>||\<close> is falsy, so also for the
  empty string that an empty array joins to.
\<close>

definition key_points :: "jsval \<Rightarrow> js_error + jsstring" where
  "key_points articleContext =
     (case get articleContext (lit ''bullets'') of
        Inl e \<Rightarrow> Inl e
      | Inr Undefined \<Rightarrow> Inr no_bullets
      | Inr Null \<Rightarrow> Inr no_bullets
      | Inr (Arr bs) \<Rightarrow>
          (case bullet_lines bs of
             Inl e \<Rightarrow> Inl e
           | Inr ls \<Rightarrow>
               (let joined = join (lit ''\<newline>'') ls
                in Inr (if joined = [] then no_bullets else joined)))
      | Inr _ \<Rightarrow> Inl TypeError)"

text \<open>Lines 51-60, for the question string that passed the checks.\<close>

definition userPrompt :: "jsval \<Rightarrow> jsstring \<Rightarrow> js_error + jsstring" where
  "userPrompt articleContext q =
     (case interpolate articleContext (lit ''headline'') of
        Inl e \<Rightarrow> Inl e
      | Inr h \<Rightarrow>
     (case interpolate articleContext (lit ''source'') of
        Inl e \<Rightarrow> Inl e
      | Inr s \<Rightarrow>
     (case interpolate articleContext (lit ''summary'') of
        Inl e \<Rightarrow> Inl e
      | Inr m \<Rightarrow>
     (case key_points articleContext of
        Inl e \<Rightarrow> Inl e
      | Inr b \<Rightarrow>
          Inr (lit ''Article Context:\<newline>Headline: '' @ h @
               lit ''\<newline>Source: '' @ s @
               lit ''\<newline>Summary: '' @ m @
               lit ''\<newline>Key Points:\<newline>'' @ b @
               lit ''\<newline>\<newline>User Question: '' @ q @
               lit ''\<newline>\<newline>Please provide a helpful, expert-level response to this question about the mining news article.'')))))"

text \<open>Lines 63-73.\<close>

definition provider_request :: "jsstring \<Rightarrow> create_params" where
  "provider_request p =
     \<lparr>model = lit ''claude-sonnet-4-20250514'',
      max_tokens = 1024,
      messages = [\<lparr>role = lit ''user'', content = p\<rparr>],
      system = systemPrompt\<rparr>"

text \<open>
  Line 75, \<open>message.content[0].text\<close>: an empty \<open>content\<close> has no first block and the
  read of \<open>text\<close> throws; a block without \<open>text\<close> gives \<open>undefined\<close> (here \<open>None\<close>).
\<close>

definition first_text :: "provider_message \<Rightarrow> js_error + jsstring option" where
  "first_text message =
     (case content_blocks message of
        [] \<Rightarrow> Inl TypeError
      | TextBlock t # _ \<Rightarrow> Inr (Some t)
      | NonTextBlock # _ \<Rightarrow> Inr None)"

text \<open>Line 83, \<open>context.auth?.uid || 'anonymous'\<close>.\<close>

definition user_id :: "callable_context \<Rightarrow> jsstring" where
  "user_id ctx =
     (case auth ctx of
        None \<Rightarrow> lit ''anonymous''
      | Some a \<Rightarrow> if uid a = [] then lit ''anonymous'' else uid a)"

definition interaction_record ::
  "jsval \<Rightarrow> jsstring \<Rightarrow> nat \<Rightarrow> callable_context \<Rightarrow> interaction" where
  "interaction_record aid q n ctx =
     \<lparr>articleId = aid, question = Str q, responseLength = n,
      timestamp = ServerTimestamp, userId = user_id ctx\<rparr>"

text \<open>
  The body of the \<open>try\<close> block, lines 30-89: the value returned or the error thrown,
  and the world as the body leaves it. Reading \<open>length\<close> of an \<open>undefined\<close> response
  (line 81) throws before the document is added.
\<close>

definition try_body ::
  "services \<Rightarrow> jsval \<Rightarrow> callable_context \<Rightarrow> world \<Rightarrow> (js_error + followup_response) \<times> world" where
  "try_body sv data ctx w =
     (case destructure data of
        Inl e \<Rightarrow> (Inl e, w)
      | Inr (aid, qv, articleContext) \<Rightarrow>
     (case check_question qv of
        Inl e \<Rightarrow> (Inl e, w)
      | Inr q \<Rightarrow>
     (case userPrompt articleContext q of
        Inl e \<Rightarrow> (Inl e, w)
      | Inr p \<Rightarrow>
          (let w1 = w\<lparr>provider_requests := provider_requests w @ [provider_request p]\<rparr>
           in
     (case create_reply sv (provider_request p) of
        Inl x \<Rightarrow> (Inl (ExternalError x), w1)
      | Inr message \<Rightarrow>
     (case first_text message of
        Inl e \<Rightarrow> (Inl e, w1)
      | Inr None \<Rightarrow> (Inl TypeError, w1)
      | Inr (Some t) \<Rightarrow>
          (let doc = interaction_record aid q (length t) ctx
           in
     (case add_rejects sv doc of
        Some x \<Rightarrow> (Inl (ExternalError x), w1)
      | None \<Rightarrow>
          (Inr \<lparr>success = True, response = t\<rparr>,
           w1\<lparr>ai_interactions := ai_interactions w1 @ [doc]\<rparr>)))))))))"

text \<open>
  The \<open>catch\<close> block, lines 91-99: the error is written to the operational log; an
  \<open>HttpsError\<close> is thrown again, anything else becomes the generic internal error.
\<close>

definition catch_error :: "js_error \<Rightarrow> js_error" where
  "catch_error e = (case e of HttpsError c m \<Rightarrow> e | _ \<Rightarrow> failed_to_generate)"

definition askFollowup ::
  "services \<Rightarrow> jsval \<Rightarrow> callable_context \<Rightarrow> world \<Rightarrow> (js_error + followup_response) \<times> world" where
  "askFollowup sv data ctx w =
     (case try_body sv data ctx w of
        (Inr r, w') \<Rightarrow> (Inr r, w')
      | (Inl e, w') \<Rightarrow>
          (Inl (catch_error e), w'\<lparr>console_errors := console_errors w' @ [e]\<rparr>))"

subsection \<open>Sequences of invocations, and conditions on inputs\<close>

text \<open>
  A sequence of invocations, each with its own payload, caller and behaviour of the
  services, run one after the other on the same world; the replies are dropped.
\<close>

fun invocations ::
  "(services \<times> jsval \<times> callable_context) list \<Rightarrow> world \<Rightarrow> world" where
  "invocations [] w = w"
| "invocations ((sv, data, ctx) # rest) w = invocations rest (snd (askFollowup sv data ctx w))"

text \<open>
  An invocation reaches the provider call and the provider rejects it.
\<close>

definition provider_call_fails :: "services \<Rightarrow> jsval \<Rightarrow> bool" where
  "provider_call_fails sv data =
     (case destructure data of
        Inl e \<Rightarrow> False
      | Inr (aid, qv, articleContext) \<Rightarrow>
          (case check_question qv of
             Inl e \<Rightarrow> False
           | Inr q \<Rightarrow>
               (case userPrompt articleContext q of
                  Inl e \<Rightarrow> False
                | Inr p \<Rightarrow> isl (create_reply sv (provider_request p)))))"

text \<open>
  Values that convert to a string without calling anything: everything but arrays and
  objects. A bullet is well formed when it is present and its \<open>text\<close> is absent or such
  a value.
\<close>

fun primitive :: "jsval \<Rightarrow> bool" where
  "primitive (Arr xs) = False"
| "primitive (Obj fs) = False"
| "primitive v = True"

definition plain_bullet :: "jsval \<Rightarrow> bool" where
  "plain_bullet b = (case get b (lit ''text'') of Inl e \<Rightarrow> False | Inr t \<Rightarrow> primitive t)"

section \<open>healthCheck\<close>

text \<open>
  Lines 105-107 build the payload from \<open>new Date().toISOString()\<close>. The time value of
  a \<open>Date\<close> is an integral number of milliseconds since the epoch, at most
  \<open>8.64e15\<close> in absolute value; \<open>new Date()\<close> takes it from the platform clock.
  \<open>toISOString\<close> is the runtime's: it is written here after ECMA-262, with the
  abstract operations of its section on time values and the Date Time String Format.
\<close>

definition msPerDay :: int where
  "msPerDay = 86400000"

definition Day :: "int \<Rightarrow> int" where
  "Day t = t div msPerDay"

definition DaysInYear :: "int \<Rightarrow> int" where
  "DaysInYear y =
     (if y mod 4 \<noteq> 0 then 365
      else if y mod 100 \<noteq> 0 then 366
      else if y mod 400 \<noteq> 0 then 365
      else 366)"

definition DayFromYear :: "int \<Rightarrow> int" where
  "DayFromYear y =
     365 * (y - 1970) + (y - 1969) div 4 - (y - 1901) div 100 + (y - 1601) div 400"

text \<open>
  \<open>YearFromTime(t)\<close> is the largest year \<open>y\<close> whose first day is not after \<open>Day(t)\<close>.
  It is found by going up year by year from a year that is not after it: no year has
  more than 366 days, and none has fewer than 365.
\<close>

function year_search :: "int \<Rightarrow> int \<Rightarrow> int" where
  "year_search y d = (if DayFromYear (y + 1) \<le> d then year_search (y + 1) d else y)"
  by pat_completeness auto
termination
proof (relation "measure (\<lambda>(y, d). nat (d - DayFromYear y))")
  show "wf (measure (\<lambda>(y, d). nat (d - DayFromYear y)))"
    by simp
next
  fix y d :: int
  assume le: "DayFromYear (y + 1) \<le> d"
  have a: "(y - 1969) div 4 \<le> (y + 1 - 1969) div 4"
    by (rule zdiv_mono1) simp_all
  have c: "(y - 1601) div 400 \<le> (y + 1 - 1601) div 400"
    by (rule zdiv_mono1) simp_all
  have "(y + 1 - 1901) div 100 \<le> (y - 1901 + 100) div 100"
    by (rule zdiv_mono1) simp_all
  then have b: "(y + 1 - 1901) div 100 \<le> (y - 1901) div 100 + 1"
    by simp
  from a b c have "DayFromYear y < DayFromYear (y + 1)"
    by (simp add: DayFromYear_def)
  with le show "((y + 1, d), (y, d)) \<in> measure (\<lambda>(y, d). nat (d - DayFromYear y))"
    by simp
qed

definition YearFromTime :: "int \<Rightarrow> int" where
  "YearFromTime t =
     (let d = Day t
      in year_search (1970 + (if 0 \<le> d then d div 366 else d div 365)) d)"

definition InLeapYear :: "int \<Rightarrow> int" where
  "InLeapYear t = (if DaysInYear (YearFromTime t) = 366 then 1 else 0)"

definition DayWithinYear :: "int \<Rightarrow> int" where
  "DayWithinYear t = Day t - DayFromYear (YearFromTime t)"

definition MonthFromTime :: "int \<Rightarrow> int" where
  "MonthFromTime t =
     (let d = DayWithinYear t; l = InLeapYear t
      in if d < 31 then 0
         else if d < 59 + l then 1
         else if d < 90 + l then 2
         else if d < 120 + l then 3
         else if d < 151 + l then 4
         else if d < 181 + l then 5
         else if d < 212 + l then 6
         else if d < 243 + l then 7
         else if d < 273 + l then 8
         else if d < 304 + l then 9
         else if d < 334 + l then 10
         else 11)"

definition DateFromTime :: "int \<Rightarrow> int" where
  "DateFromTime t =
     (let d = DayWithinYear t; l = InLeapYear t; m = MonthFromTime t
      in if m = 0 then d + 1
         else if m = 1 then d - 30
         else if m = 2 then d - 58 - l
         else if m = 3 then d - 89 - l
         else if m = 4 then d - 119 - l
         else if m = 5 then d - 150 - l
         else if m = 6 then d - 180 - l
         else if m = 7 then d - 211 - l
         else if m = 8 then d - 242 - l
         else if m = 9 then d - 272 - l
         else if m = 10 then d - 303 - l
         else d - 333 - l)"

definition HourFromTime :: "int \<Rightarrow> int" where
  "HourFromTime t = (t div 3600000) mod 24"

definition MinFromTime :: "int \<Rightarrow> int" where
  "MinFromTime t = (t div 60000) mod 60"

definition SecFromTime :: "int \<Rightarrow> int" where
  "SecFromTime t = (t div 1000) mod 60"

definition msFromTime :: "int \<Rightarrow> int" where
  "msFromTime t = t mod 1000"

text \<open>Decimal digits, padded with zeros on the left to a fixed width.\<close>

definition digit :: "nat \<Rightarrow> code_unit" where
  "digit n = of_nat (48 + n mod 10)"

fun pad :: "nat \<Rightarrow> nat \<Rightarrow> jsstring" where
  "pad 0 k = []"
| "pad (Suc n) k = pad n (k div 10) @ [digit (k mod 10)]"

text \<open>
  The Date Time String Format, \<open>YYYY-MM-DDTHH:mm:ss.sssZ\<close>. A year outside 0 to 9999
  is written as an expanded year: a sign and six digits.
\<close>

definition year_string :: "int \<Rightarrow> jsstring" where
  "year_string y =
     (if 0 \<le> y \<and> y \<le> 9999 then pad 4 (nat y)
      else (if y < 0 then lit ''-'' else lit ''+'') @ pad 6 (nat \<bar>y\<bar>))"

definition date_time_string :: "int \<Rightarrow> jsstring" where
  "date_time_string t =
     year_string (YearFromTime t) @ lit ''-'' @
     pad 2 (nat (MonthFromTime t + 1)) @ lit ''-'' @
     pad 2 (nat (DateFromTime t)) @ lit ''T'' @
     pad 2 (nat (HourFromTime t)) @ lit '':'' @
     pad 2 (nat (MinFromTime t)) @ lit '':'' @
     pad 2 (nat (SecFromTime t)) @ lit ''.'' @
     pad 3 (nat (msFromTime t)) @ lit ''Z''"

text \<open>
  \<open>toISOString\<close> throws a \<open>RangeError\<close> on an invalid date, whose time value is
  \<open>NaN\<close> (here \<open>None\<close>).
\<close>

definition toISOString :: "int option \<Rightarrow> js_error + jsstring" where
  "toISOString tv = (case tv of None \<Rightarrow> Inl RangeError | Some t \<Rightarrow> Inr (date_time_string t))"

text \<open>
  The handler, for the clock's reading and any request: what \<open>res.json\<close> is given, or the
  error thrown.
\<close>

definition healthCheck :: "int \<Rightarrow> jsval \<Rightarrow> js_error + health_payload" where
  "healthCheck clock req =
     (case toISOString (Some clock) of
        Inl e \<Rightarrow> Inl e
      | Inr ts \<Rightarrow> Inr \<lparr>status = lit ''ok'', health_payload.timestamp = ts\<rparr>)"

subsection \<open>Reading a date-time string\<close>

text \<open>
  What it means for a string to be a valid ISO-8601 date-time: it reads as a year (four
  digits, or a sign and six digits, \<open>-000000\<close> excluded), a month, a day, \<open>T\<close>, hours,
  minutes, seconds, milliseconds and \<open>Z\<close>, with nothing left over, and the fields name a
  day of the calendar and a time of the day.
\<close>

definition is_digit :: "code_unit \<Rightarrow> bool" where
  "is_digit c = (0x30 \<le> c \<and> c \<le> 0x39)"

fun number_from :: "nat \<Rightarrow> jsstring \<Rightarrow> nat option" where
  "number_from a [] = Some a"
| "number_from a (c # cs) =
     (if is_digit c then number_from (10 * a + (unat c - 48)) cs else None)"

definition field :: "nat \<Rightarrow> jsstring \<Rightarrow> (nat \<times> jsstring) option" where
  "field n s =
     (if length s < n then None
      else (case number_from 0 (take n s) of
              None \<Rightarrow> None
            | Some v \<Rightarrow> Some (v, drop n s)))"

definition expect :: "string \<Rightarrow> jsstring \<Rightarrow> jsstring option" where
  "expect c s = (if take (length c) s = lit c then Some (drop (length c) s) else None)"

definition signed_year :: "jsstring \<Rightarrow> (int \<times> jsstring) option" where
  "signed_year s =
     (if take 1 s = lit ''+'' then
        do { (y, r) \<leftarrow> field 6 (drop 1 s); Some (int y, r) }
      else if take 1 s = lit ''-'' then
        do { (y, r) \<leftarrow> field 6 (drop 1 s); if y = 0 then None else Some (- int y, r) }
      else
        do { (y, r) \<leftarrow> field 4 s; Some (int y, r) })"

definition parse_date_time ::
  "jsstring \<Rightarrow> (int \<times> nat \<times> nat \<times> nat \<times> nat \<times> nat \<times> nat) option" where
  "parse_date_time s =
     do {
       (y, r) \<leftarrow> signed_year s;
       r \<leftarrow> expect ''-'' r;
       (mo, r) \<leftarrow> field 2 r;
       r \<leftarrow> expect ''-'' r;
       (d, r) \<leftarrow> field 2 r;
       r \<leftarrow> expect ''T'' r;
       (h, r) \<leftarrow> field 2 r;
       r \<leftarrow> expect '':'' r;
       (mi, r) \<leftarrow> field 2 r;
       r \<leftarrow> expect '':'' r;
       (sec, r) \<leftarrow> field 2 r;
       r \<leftarrow> expect ''.'' r;
       (ms, r) \<leftarrow> field 3 r;
       r \<leftarrow> expect ''Z'' r;
       if r = [] then Some (y, mo, d, h, mi, sec, ms) else None
     }"

definition days_in_month :: "int \<Rightarrow> nat \<Rightarrow> nat" where
  "days_in_month y m =
     (if m = 2 then (if DaysInYear y = 366 then 29 else 28)
      else if m = 4 \<or> m = 6 \<or> m = 9 \<or> m = 11 then 30
      else 31)"

definition valid_date_time :: "jsstring \<Rightarrow> bool" where
  "valid_date_time s =
     (case parse_date_time s of
        None \<Rightarrow> False
      | Some (y, mo, d, h, mi, sec, ms) \<Rightarrow>
          1 \<le> mo \<and> mo \<le> 12 \<and> 1 \<le> d \<and> d \<le> days_in_month y mo \<and>
          h \<le> 23 \<and> mi \<le> 59 \<and> sec \<le> 59)"

section \<open>Sample inputs\<close>

definition quiet_world :: world where
  "quiet_world = \<lparr>ai_interactions = [], provider_requests = [], console_errors = []\<rparr>"

definition anonymous_caller :: callable_context where
  "anonymous_caller = \<lparr>auth = None\<rparr>"

definition signed_in_caller :: callable_context where
  "signed_in_caller = \<lparr>auth = Some \<lparr>uid = lit ''u42''\<rparr>\<rparr>"

definition answering_services :: services where
  "answering_services =
     \<lparr>create_reply = (\<lambda>_. Inr (Message [TextBlock (lit ''Answer text'')])),
      add_rejects = (\<lambda>_. None)\<rparr>"

definition provider_down :: services where
  "provider_down =
     \<lparr>create_reply = (\<lambda>_. Inl (lit ''connection reset'')),
      add_rejects = (\<lambda>_. None)\<rparr>"

definition store_down :: services where
  "store_down =
     \<lparr>create_reply = (\<lambda>_. Inr (Message [TextBlock (lit ''Answer text'')])),
      add_rejects = (\<lambda>_. Some (lit ''unavailable''))\<rparr>"

definition sample_context :: jsval where
  "sample_context =
     Obj [(lit ''headline'', Str (lit ''Copper output rises'')),
          (lit ''source'', Str (lit ''Mining Weekly'')),
          (lit ''summary'', Str (lit ''Output rose in Q3.'')),
          (lit ''bullets'',
             Arr [Obj [(lit ''text'', Str (lit ''Production up 12%''))],
                  Obj [(lit ''text'', Str (lit ''New CEO appointed''))]])]"

definition sample_request :: jsval where
  "sample_request =
     Obj [(lit ''articleId'', Str (lit ''a1'')),
          (lit ''question'', Str (lit ''Why?'')),
          (lit ''articleContext'', sample_context)]"

definition sample_prompt :: jsstring where
  "sample_prompt = lit (
     ''Article Context:\<newline>'' @
     ''Headline: Copper output rises\<newline>'' @
     ''Source: Mining Weekly\<newline>'' @
     ''Summary: Output rose in Q3.\<newline>'' @
     ''Key Points:\<newline>'' @
     ''- Production up 12%\<newline>'' @
     ''- New CEO appointed\<newline>'' @
     ''\<newline>'' @
     ''User Question: Why?\<newline>'' @
     ''\<newline>'' @
     ''Please provide a helpful, expert-level response to this question about the mining news article.'')"

text \<open>The same request without \<open>articleContext\<close>.\<close>

definition request_without_context :: jsval where
  "request_without_context =
     Obj [(lit ''articleId'', Str (lit ''a1'')), (lit ''question'', Str (lit ''Why?''))]"

text \<open>A question of 501 code units that trims to the single letter \<open>a\<close>.\<close>

definition padded_question :: jsstring where
  "padded_question = lit ''a'' @ replicate 500 0x0020"

definition padded_request :: jsval where
  "padded_request =
     Obj [(lit ''articleId'', Str (lit ''a1'')),
          (lit ''question'', Str padded_question),
          (lit ''articleContext'', sample_context)]"

definition blank_request :: jsval where
  "blank_request =
     Obj [(lit ''articleId'', Str (lit ''a1'')),
          (lit ''question'', Str (lit ''   '')),
          (lit ''articleContext'', sample_context)]"

text \<open>A reading of the clock: 2026-11-03, 06:36:00.123 UTC.\<close>

definition sample_clock :: int where
  "sample_clock = 1793687760123"

section \<open>Which errors each step can throw\<close>

lemma check_question_error:
  "check_question qv = Inl e \<Longrightarrow>
     e = question_required \<or> e = question_too_long \<or> e = TypeError"
  by (auto simp: check_question_def split: if_splits jsval.splits)

lemma check_question_passes:
  "check_question qv = Inr q \<Longrightarrow> qv = Str q \<and> trim q \<noteq> [] \<and> length q \<le> 500"
  by (auto simp: check_question_def split: if_splits jsval.splits)

lemma to_string_error:
  "to_string v = Inl e \<Longrightarrow> e = TypeError"
  "join_elements vs = Inl e \<Longrightarrow> e = TypeError"
  "element_string v' = Inl e \<Longrightarrow> e = TypeError"
  by (induction v and vs and v' rule: to_string_join_elements_element_string.induct)
     (auto split: sum.splits if_splits)

lemma get_error: "get v k = Inl e \<Longrightarrow> e = TypeError"
  by (cases v) auto

lemma destructure_present:
  assumes "data \<noteq> Undefined" and "data \<noteq> Null"
  shows "destructure data =
           Inr (case get data (lit ''articleId'') of Inr a \<Rightarrow> a | Inl e \<Rightarrow> Undefined,
                case get data (lit ''question'') of Inr q \<Rightarrow> q | Inl e \<Rightarrow> Undefined,
                case get data (lit ''articleContext'') of Inr c \<Rightarrow> c | Inl e \<Rightarrow> Undefined)"
  using assms by (cases data) (simp_all add: destructure_def)

lemma destructure_absent:
  "destructure Undefined = Inl TypeError" "destructure Null = Inl TypeError"
  by (simp_all add: destructure_def)

lemma interpolate_error: "interpolate v k = Inl e \<Longrightarrow> e = TypeError"
  by (auto simp: interpolate_def split: sum.splits dest: to_string_error get_error)

lemma bullet_lines_error: "bullet_lines bs = Inl e \<Longrightarrow> e = TypeError"
  by (induction bs) (auto simp: bullet_line_def split: sum.splits dest: interpolate_error)

lemma key_points_error: "key_points ac = Inl e \<Longrightarrow> e = TypeError"
  by (auto simp: key_points_def Let_def split: sum.splits jsval.splits
      dest: get_error bullet_lines_error)

lemma userPrompt_error: "userPrompt ac q = Inl e \<Longrightarrow> e = TypeError"
  by (auto simp: userPrompt_def split: sum.splits dest: interpolate_error key_points_error)

lemma destructure_error: "destructure data = Inl e \<Longrightarrow> e = TypeError"
  by (auto simp: destructure_def split: sum.splits dest: get_error)

lemma first_text_error: "first_text m = Inl e \<Longrightarrow> e = TypeError"
  by (auto simp: first_text_def split: list.splits content_block.splits)

section \<open>The catch block\<close>

lemma catch_error_simps:
  "catch_error question_required = question_required"
  "catch_error question_too_long = question_too_long"
  "catch_error TypeError = failed_to_generate"
  "catch_error (ExternalError x) = failed_to_generate"
  by (simp_all add: catch_error_def question_required_def question_too_long_def)

lemma validation_errors_distinct:
  "question_required \<noteq> question_too_long"
  "question_required \<noteq> failed_to_generate"
  "question_too_long \<noteq> failed_to_generate"
  by (simp_all add: question_required_def question_too_long_def failed_to_generate_def lit_def)

section \<open>The ways through the handler\<close>

lemma askFollowup_destructure_throws:
  "destructure data = Inl e \<Longrightarrow>
     askFollowup sv data ctx w =
       (Inl (catch_error e), w\<lparr>console_errors := console_errors w @ [e]\<rparr>)"
  by (simp add: askFollowup_def try_body_def)

lemma askFollowup_check_throws:
  "destructure data = Inr (aid, qv, ac) \<Longrightarrow> check_question qv = Inl e \<Longrightarrow>
     askFollowup sv data ctx w =
       (Inl (catch_error e), w\<lparr>console_errors := console_errors w @ [e]\<rparr>)"
  by (simp add: askFollowup_def try_body_def)

lemma askFollowup_prompt_throws:
  "destructure data = Inr (aid, qv, ac) \<Longrightarrow> check_question qv = Inr q \<Longrightarrow>
   userPrompt ac q = Inl e \<Longrightarrow>
     askFollowup sv data ctx w =
       (Inl (catch_error e), w\<lparr>console_errors := console_errors w @ [e]\<rparr>)"
  by (simp add: askFollowup_def try_body_def)

lemma askFollowup_provider_rejects:
  "destructure data = Inr (aid, qv, ac) \<Longrightarrow> check_question qv = Inr q \<Longrightarrow>
   userPrompt ac q = Inr p \<Longrightarrow> create_reply sv (provider_request p) = Inl x \<Longrightarrow>
     askFollowup sv data ctx w =
       (Inl failed_to_generate,
        w\<lparr>provider_requests := provider_requests w @ [provider_request p],
          console_errors := console_errors w @ [ExternalError x]\<rparr>)"
  by (simp add: askFollowup_def try_body_def catch_error_def)

lemma askFollowup_no_text:
  assumes "destructure data = Inr (aid, qv, ac)" and "check_question qv = Inr q"
    and "userPrompt ac q = Inr p" and "create_reply sv (provider_request p) = Inr m"
    and "\<And>t. first_text m \<noteq> Inr (Some t)"
  shows "askFollowup sv data ctx w =
       (Inl failed_to_generate,
        w\<lparr>provider_requests := provider_requests w @ [provider_request p],
          console_errors := console_errors w @ [TypeError]\<rparr>)"
proof (cases "first_text m")
  case (Inl e)
  then have "e = TypeError" by (rule first_text_error)
  with Inl assms(1-4) show ?thesis
    by (simp add: askFollowup_def try_body_def catch_error_def)
next
  case (Inr r)
  with assms(5) have "r = None" by (cases r) auto
  with Inr assms(1-4) show ?thesis
    by (simp add: askFollowup_def try_body_def catch_error_def)
qed

lemma askFollowup_store_rejects:
  "destructure data = Inr (aid, qv, ac) \<Longrightarrow> check_question qv = Inr q \<Longrightarrow>
   userPrompt ac q = Inr p \<Longrightarrow> create_reply sv (provider_request p) = Inr m \<Longrightarrow>
   first_text m = Inr (Some t) \<Longrightarrow>
   add_rejects sv (interaction_record aid q (length t) ctx) = Some x \<Longrightarrow>
     askFollowup sv data ctx w =
       (Inl failed_to_generate,
        w\<lparr>provider_requests := provider_requests w @ [provider_request p],
          console_errors := console_errors w @ [ExternalError x]\<rparr>)"
  by (simp add: askFollowup_def try_body_def catch_error_def)

lemma askFollowup_returns:
  "destructure data = Inr (aid, qv, ac) \<Longrightarrow> check_question qv = Inr q \<Longrightarrow>
   userPrompt ac q = Inr p \<Longrightarrow> create_reply sv (provider_request p) = Inr m \<Longrightarrow>
   first_text m = Inr (Some t) \<Longrightarrow>
   add_rejects sv (interaction_record aid q (length t) ctx) = None \<Longrightarrow>
     askFollowup sv data ctx w =
       (Inr \<lparr>success = True, response = t\<rparr>,
        w\<lparr>provider_requests := provider_requests w @ [provider_request p],
          ai_interactions := ai_interactions w @ [interaction_record aid q (length t) ctx]\<rparr>)"
  by (simp add: askFollowup_def try_body_def)

text \<open>Conversely, a reply is returned on one path only.\<close>

lemma askFollowup_Inr_cases:
  assumes "askFollowup sv data ctx w = (Inr r, w')"
  shows "\<exists>aid qv ac q p m t.
           destructure data = Inr (aid, qv, ac) \<and> check_question qv = Inr q \<and>
           userPrompt ac q = Inr p \<and> create_reply sv (provider_request p) = Inr m \<and>
           first_text m = Inr (Some t) \<and>
           add_rejects sv (interaction_record aid q (length t) ctx) = None \<and>
           r = \<lparr>success = True, response = t\<rparr> \<and>
           w' = w\<lparr>provider_requests := provider_requests w @ [provider_request p],
                  ai_interactions := ai_interactions w @ [interaction_record aid q (length t) ctx]\<rparr>"
  using assms
  by (auto simp: askFollowup_def try_body_def Let_def split: sum.splits prod.splits option.splits)

lemma try_body_error:
  "try_body sv data ctx w = (Inl e, w') \<Longrightarrow>
     (e = question_required \<or> e = question_too_long \<or> e = TypeError \<or> (\<exists>x. e = ExternalError x))
     \<and> ai_interactions w' = ai_interactions w"
  by (auto simp: try_body_def Let_def split: sum.splits prod.splits option.splits
      dest: destructure_error check_question_error userPrompt_error first_text_error)

section \<open>The sample inputs, step by step\<close>

lemma is_whitespace_space: "is_whitespace 0x0020"
  by (simp add: is_whitespace_def)

lemma not_whitespace_a: "\<not> is_whitespace 0x61"
  by (simp add: is_whitespace_def)

lemma trim_padded: "trim padded_question = lit ''a''"
proof -
  have "dropWhile is_whitespace (replicate 500 0x20 @ [0x61]) = [0x61]"
    using is_whitespace_space not_whitespace_a by (subst dropWhile_append2) auto
  then show ?thesis
    using not_whitespace_a by (simp add: padded_question_def trim_def lit_def)
qed

lemma length_padded: "length padded_question = 501"
  by (simp add: padded_question_def lit_def)

lemma trim_blank: "trim (lit ''   '') = []"
  by (simp add: trim_def lit_def is_whitespace_def)

lemma sample_destructure:
  "destructure sample_request = Inr (Str (lit ''a1''), Str (lit ''Why?''), sample_context)"
  by (simp add: destructure_def sample_request_def lit_def)

lemma padded_destructure:
  "destructure padded_request = Inr (Str (lit ''a1''), Str padded_question, sample_context)"
  by (simp add: destructure_def padded_request_def lit_def)

lemma blank_destructure:
  "destructure blank_request = Inr (Str (lit ''a1''), Str (lit ''   ''), sample_context)"
  by (simp add: destructure_def blank_request_def lit_def)

lemma without_context_destructure:
  "destructure request_without_context = Inr (Str (lit ''a1''), Str (lit ''Why?''), Undefined)"
  by (simp add: destructure_def request_without_context_def lit_def)

lemma sample_check: "check_question (Str (lit ''Why?'')) = Inr (lit ''Why?'')"
  by (simp add: check_question_def trim_def lit_def is_whitespace_def)

lemma sample_key_points:
  "key_points sample_context = Inr (lit ''- Production up 12%\<newline>- New CEO appointed'')"
  by (simp add: key_points_def interpolate_def bullet_line_def sample_context_def lit_def)

lemma sample_interpolations:
  "interpolate sample_context (lit ''headline'') = Inr (lit ''Copper output rises'')"
  "interpolate sample_context (lit ''source'') = Inr (lit ''Mining Weekly'')"
  "interpolate sample_context (lit ''summary'') = Inr (lit ''Output rose in Q3.'')"
  by (simp_all add: interpolate_def sample_context_def lit_def)

lemma sample_userPrompt: "userPrompt sample_context (lit ''Why?'') = Inr sample_prompt"
  by (simp add: userPrompt_def sample_interpolations sample_key_points)
     (simp add: sample_prompt_def lit_def)

lemma userPrompt_without_context: "userPrompt Undefined q = Inl TypeError"
  by (simp add: userPrompt_def interpolate_def)

section \<open>Consequences for every invocation\<close>

lemma askFollowup_after_checks:
  assumes "destructure data = Inr (aid, qv, ac)" and "check_question qv = Inr q"
  shows "fst (askFollowup sv data ctx w) = Inl failed_to_generate
         \<or> (\<exists>r. fst (askFollowup sv data ctx w) = Inr r)"
  using assms
  by (auto simp: askFollowup_def try_body_def Let_def catch_error_def
      split: sum.splits option.splits dest: userPrompt_error first_text_error)

lemma askFollowup_thrown:
  assumes "try_body sv data ctx w = (Inl e, w')"
  shows "askFollowup sv data ctx w =
           (Inl (if e = question_required \<or> e = question_too_long then e else failed_to_generate),
            w'\<lparr>console_errors := console_errors w' @ [e]\<rparr>)"
proof -
  from try_body_error [OF assms]
  have "e = question_required \<or> e = question_too_long \<or> e = TypeError \<or> (\<exists>x. e = ExternalError x)"
    by simp
  then have "catch_error e = (if e = question_required \<or> e = question_too_long then e else failed_to_generate)"
    by (auto simp: catch_error_simps)
  with assms show ?thesis by (simp add: askFollowup_def)
qed

lemma provider_call_fails_result:
  assumes "provider_call_fails sv data"
  shows "fst (askFollowup sv data ctx w) = Inl failed_to_generate
         \<and> ai_interactions (snd (askFollowup sv data ctx w)) = ai_interactions w"
  using assms
  by (auto simp: provider_call_fails_def askFollowup_def try_body_def Let_def catch_error_def
      isl_def split: sum.splits prod.splits)

lemma trim_padded_nonempty: "trim padded_question \<noteq> []"
  by (simp add: trim_padded lit_def)

lemma invocations_provider_fails:
  "\<forall>c \<in> set calls. provider_call_fails (fst c) (fst (snd c)) \<Longrightarrow>
     ai_interactions (invocations calls w) = ai_interactions w"
proof (induction calls arbitrary: w)
  case Nil
  then show ?case by simp
next
  case (Cons c calls)
  obtain sv data ctx where c: "c = (sv, data, ctx)" by (cases c) auto
  with Cons.prems have "provider_call_fails sv data" by simp
  then have "ai_interactions (snd (askFollowup sv data ctx w)) = ai_interactions w"
    using provider_call_fails_result by blast
  moreover have "ai_interactions (invocations calls (snd (askFollowup sv data ctx w)))
      = ai_interactions (snd (askFollowup sv data ctx w))"
    using Cons.IH Cons.prems by simp
  ultimately show ?case using c by simp
qed

lemma sample_provider_call_fails: "provider_call_fails provider_down sample_request"
  by (simp add: provider_call_fails_def sample_destructure sample_check sample_userPrompt
      provider_down_def)

lemma first_text_TextBlock:
  "content_blocks m = TextBlock t # rest \<Longrightarrow> first_text m = Inr (Some t)"
  by (simp add: first_text_def)

lemma first_text_Some:
  "first_text m = Inr (Some t) \<Longrightarrow> \<exists>rest. content_blocks m = TextBlock t # rest"
  by (auto simp: first_text_def split: list.splits content_block.splits)

lemma length_answer_text: "length (lit ''Answer text'') = 11"
  by (simp add: lit_def)

lemma user_id_signed_in: "user_id signed_in_caller = lit ''u42''"
  by (simp add: user_id_def signed_in_caller_def lit_def)

lemma user_id_anonymous: "user_id anonymous_caller = lit ''anonymous''"
  by (simp add: user_id_def anonymous_caller_def)




lemma primitive_to_string: "primitive v \<Longrightarrow> \<exists>s. to_string v = Inr s"
  by (cases v) simp_all

lemma plain_bullet_line: "plain_bullet b \<Longrightarrow> \<exists>l. bullet_line b = Inr l"
  by (auto simp: plain_bullet_def bullet_line_def interpolate_def split: sum.splits
      dest: primitive_to_string)

lemma plain_bullet_lines: "list_all plain_bullet bs \<Longrightarrow> \<exists>ls. bullet_lines bs = Inr ls"
  by (induction bs) (auto dest: plain_bullet_line)

lemma key_points_absent:
  "get ac (lit ''bullets'') = Inr Undefined \<or> get ac (lit ''bullets'') = Inr Null
     \<or> get ac (lit ''bullets'') = Inr (Arr []) \<Longrightarrow> key_points ac = Inr no_bullets"
  by (auto simp: key_points_def)




section \<open>Calendar arithmetic\<close>

lemma div_step:
  fixes a n :: int
  assumes "0 < n"
  shows "(a + 1) div n = a div n + (if (a + 1) mod n = 0 then 1 else 0)"
proof (cases "a mod n = n - 1")
  case True
  have "a + 1 = n * (a div n) + a mod n + 1" by (simp only: mult_div_mod_eq)
  also have "\<dots> = n * (a div n + 1) + 0" unfolding True by (simp add: algebra_simps)
  finally have eq: "a + 1 = n * (a div n + 1) + 0" .
  from assms have "(a + 1) div n = a div n + 1" and "(a + 1) mod n = 0"
    using int_div_pos_eq [OF eq] int_mod_pos_eq [OF eq] by simp_all
  then show ?thesis by simp
next
  case False
  have "0 \<le> a mod n" and "a mod n < n" using assms by simp_all
  with False have r: "0 \<le> a mod n + 1" "a mod n + 1 < n" by simp_all
  have "a + 1 = n * (a div n) + a mod n + 1" by (simp only: mult_div_mod_eq)
  then have eq: "a + 1 = n * (a div n) + (a mod n + 1)" by (simp only: add.assoc)
  have "(a + 1) div n = a div n" and "(a + 1) mod n = a mod n + 1"
    using int_div_pos_eq [OF eq r] int_mod_pos_eq [OF eq r] by simp_all
  with \<open>0 \<le> a mod n\<close> show ?thesis by simp
qed

lemma leap_shift:
  fixes y :: int
  shows "(y - 1968) mod 4 = 0 \<longleftrightarrow> y mod 4 = 0"
    and "(y - 1900) mod 100 = 0 \<longleftrightarrow> y mod 100 = 0"
    and "(y - 1600) mod 400 = 0 \<longleftrightarrow> y mod 400 = 0"
  by (simp_all add: mod_eq_0_iff_dvd dvd_diff_left_iff)

lemma leap_chain:
  fixes y :: int
  shows "y mod 100 = 0 \<Longrightarrow> y mod 4 = 0"
    and "y mod 400 = 0 \<Longrightarrow> y mod 100 = 0"
proof -
  have "(4::int) dvd 100" and "(100::int) dvd 400" by simp_all
  then show "y mod 100 = 0 \<Longrightarrow> y mod 4 = 0" and "y mod 400 = 0 \<Longrightarrow> y mod 100 = 0"
    by (auto simp: mod_eq_0_iff_dvd elim: dvd_trans)
qed

lemma DayFromYear_Suc: "DayFromYear (y + 1) = DayFromYear y + DaysInYear y"
proof -
  have a: "(y + 1 - 1969) div 4 = (y - 1969) div 4 + (if y mod 4 = 0 then 1 else 0)"
    using div_step [of 4 "y - 1969"] leap_shift(1) [of y] by (simp add: algebra_simps)
  have b: "(y + 1 - 1901) div 100 = (y - 1901) div 100 + (if y mod 100 = 0 then 1 else 0)"
    using div_step [of 100 "y - 1901"] leap_shift(2) [of y] by (simp add: algebra_simps)
  have c: "(y + 1 - 1601) div 400 = (y - 1601) div 400 + (if y mod 400 = 0 then 1 else 0)"
    using div_step [of 400 "y - 1601"] leap_shift(3) [of y] by (simp add: algebra_simps)
  show ?thesis
    unfolding DayFromYear_def DaysInYear_def a b c
    using leap_chain [of y] by auto
qed

lemma DaysInYear_bounds: "365 \<le> DaysInYear y" "DaysInYear y \<le> 366"
  by (simp_all add: DaysInYear_def)

lemma DayFromYear_1970: "DayFromYear 1970 = 0"
  by (simp add: DayFromYear_def)

lemma year_search_bounds:
  "DayFromYear y \<le> d \<Longrightarrow>
     DayFromYear (year_search y d) \<le> d \<and> d < DayFromYear (year_search y d + 1)"
proof (induction y d rule: year_search.induct)
  case (1 y d)
  show ?case
  proof (cases "DayFromYear (y + 1) \<le> d")
    case True
    with "1.IH" have "DayFromYear (year_search (y + 1) d) \<le> d \<and>
        d < DayFromYear (year_search (y + 1) d + 1)" by simp
    moreover have "year_search y d = year_search (y + 1) d"
      using True by (subst year_search.simps) simp
    ultimately show ?thesis by simp
  next
    case False
    then have "year_search y d = y" by (subst year_search.simps) simp
    with False "1.prems" show ?thesis by simp
  qed
qed

lemma DayFromYear_after_1970: "DayFromYear (1970 + int k) \<le> 366 * int k \<and> 365 * int k \<le> DayFromYear (1970 + int k)"
proof (induction k)
  case 0
  then show ?case by (simp add: DayFromYear_1970)
next
  case (Suc k)
  have "DayFromYear (1970 + int (Suc k)) = DayFromYear (1970 + int k) + DaysInYear (1970 + int k)"
    using DayFromYear_Suc [of "1970 + int k"] by (simp add: algebra_simps)
  with Suc DaysInYear_bounds [of "1970 + int k"] show ?case by simp
qed

lemma DayFromYear_before_1970: "DayFromYear (1970 - int k) \<le> - 365 * int k \<and> - 366 * int k \<le> DayFromYear (1970 - int k)"
proof (induction k)
  case 0
  then show ?case by (simp add: DayFromYear_1970)
next
  case (Suc k)
  have "DayFromYear (1970 - int k) = DayFromYear (1970 - int (Suc k)) + DaysInYear (1970 - int (Suc k))"
    using DayFromYear_Suc [of "1970 - int (Suc k)"] by (simp add: algebra_simps)
  with Suc DaysInYear_bounds [of "1970 - int (Suc k)"] show ?case by simp
qed

lemma year_estimate: "DayFromYear (1970 + (if 0 \<le> d then d div 366 else d div 365)) \<le> d"
proof (cases "0 \<le> d")
  case True
  then have "0 \<le> d div 366" by simp
  then obtain k where k: "d div 366 = int k" using nonneg_int_cases by blast
  have "366 * (d div 366) \<le> d" by simp
  with DayFromYear_after_1970 [of k] k True show ?thesis by simp
next
  case False
  then have "d div 365 < 0" by (simp add: div_neg_pos_less0)
  then obtain k where k: "d div 365 = - int k" by (metis int_cases2 less_le_not_le of_nat_0_le_iff add.inverse_inverse)
  have "365 * (d div 365) \<le> d" by simp
  with DayFromYear_before_1970 [of k] k False show ?thesis by simp
qed

lemma YearFromTime_bounds:
  "DayFromYear (YearFromTime t) \<le> Day t \<and> Day t < DayFromYear (YearFromTime t + 1)"
  unfolding YearFromTime_def Let_def by (rule year_search_bounds) (rule year_estimate)

lemma unat_digit: "unat (digit n) = 48 + n mod 10"
proof -
  have "48 + n mod 10 < 2 ^ LENGTH(16)" by simp
  then show ?thesis unfolding digit_def by (rule of_nat_inverse [OF refl])
qed

lemma is_digit_digit: "is_digit (digit n)"
  by (simp add: is_digit_def word_le_nat_alt unat_digit)

lemma number_from_append:
  "number_from a (xs @ ys) = (case number_from a xs of None \<Rightarrow> None | Some v \<Rightarrow> number_from v ys)"
  by (induction xs arbitrary: a) simp_all

lemma number_from_pad: "number_from a (pad n k) = Some (a * 10 ^ n + k mod 10 ^ n)"
proof (induction n arbitrary: k)
  case 0
  then show ?case by simp
next
  case (Suc n)
  have "k mod (10 * 10 ^ n) = 10 * (k div 10 mod 10 ^ n) + k mod 10"
    by (rule mod_mult2_eq)
  then show ?case
    by (simp add: number_from_append Suc is_digit_digit unat_digit algebra_simps)
qed

lemma length_pad: "length (pad n k) = n"
  by (induction n arbitrary: k) simp_all

lemma field_pad: "k < 10 ^ n \<Longrightarrow> field n (pad n k @ r) = Some (k, r)"
  by (simp add: field_def length_pad number_from_pad)

lemma expect_lit: "expect c (lit c @ r) = Some r"
  by (simp add: expect_def lit_def)

lemma pad_digits: "c \<in> set (pad n k) \<Longrightarrow> is_digit c"
  by (induction n arbitrary: k) (auto simp: is_digit_digit)

lemma take_1_pad:
  assumes "0 < n"
  shows "\<exists>c. is_digit c \<and> take 1 (pad n k @ r) = [c]"
proof -
  from assms have "pad n k \<noteq> []" using length_pad [of n k] by auto
  then obtain c cs where "pad n k = c # cs" by (cases "pad n k") auto
  moreover from this have "is_digit c" using pad_digits [of c n k] by simp
  ultimately show ?thesis by simp
qed

lemma not_digit_sign: "is_digit c \<Longrightarrow> [c] \<noteq> lit ''+'' \<and> [c] \<noteq> lit ''-''"
  by (auto simp: is_digit_def lit_def)

lemma signed_year_string:
  assumes "- 999999 \<le> y" and "y \<le> 999999"
  shows "signed_year (year_string y @ r) = Some (y, r)"
proof -
  consider "0 \<le> y \<and> y \<le> 9999" | "9999 < y" | "y < 0" by linarith
  then show ?thesis
  proof cases
    case 1
    obtain c where c: "is_digit c" "take 1 (pad 4 (nat y) @ r) = [c]"
      using take_1_pad [of 4 "nat y" r] by auto
    have "nat y < 10000" using 1 by linarith
    then have "nat y < 10 ^ 4" by simp
    then have "field 4 (pad 4 (nat y) @ r) = Some (nat y, r)" by (rule field_pad)
    with 1 c not_digit_sign [OF c(1)] show ?thesis
      by (simp add: signed_year_def year_string_def)
  next
    case 2
    have "nat \<bar>y\<bar> < 1000000" using 2 assms by linarith
    then have "nat \<bar>y\<bar> < 10 ^ 6" by simp
    then have "field 6 (pad 6 (nat \<bar>y\<bar>) @ r) = Some (nat \<bar>y\<bar>, r)" by (rule field_pad)
    with 2 show ?thesis
      by (simp add: signed_year_def year_string_def lit_def)
  next
    case 3
    have "nat \<bar>y\<bar> < 1000000" using 3 assms by linarith
    then have "nat \<bar>y\<bar> < 10 ^ 6" by simp
    then have "field 6 (pad 6 (nat \<bar>y\<bar>) @ r) = Some (nat \<bar>y\<bar>, r)" by (rule field_pad)
    with 3 show ?thesis
      by (simp add: signed_year_def year_string_def lit_def)
  qed
qed

lemma DayWithinYear_range:
  "0 \<le> DayWithinYear t \<and> DayWithinYear t < DaysInYear (YearFromTime t)"
  using YearFromTime_bounds [of t] DayFromYear_Suc [of "YearFromTime t"]
  by (simp add: DayWithinYear_def)

lemma MonthFromTime_range: "0 \<le> MonthFromTime t \<and> MonthFromTime t \<le> 11"
  by (simp add: MonthFromTime_def Let_def)

lemma DateFromTime_range:
  "1 \<le> DateFromTime t \<and>
   DateFromTime t \<le> int (days_in_month (YearFromTime t) (nat (MonthFromTime t + 1)))"
proof -
  define d where "d = DayWithinYear t"
  define y where "y = YearFromTime t"
  have d: "0 \<le> d" "d < DaysInYear y" using DayWithinYear_range [of t] by (simp_all add: d_def y_def)
  have y: "DaysInYear y = 365 \<or> DaysInYear y = 366" by (simp add: DaysInYear_def)
  from y show ?thesis
  proof
    assume c: "DaysInYear y = 365"
    with d show ?thesis
      unfolding DateFromTime_def MonthFromTime_def InLeapYear_def Let_def days_in_month_def
        d_def [symmetric] y_def [symmetric]
      by simp
  next
    assume l: "DaysInYear y = 366"
    with d show ?thesis
      unfolding DateFromTime_def MonthFromTime_def InLeapYear_def Let_def days_in_month_def
        d_def [symmetric] y_def [symmetric]
      by simp
  qed
qed

lemma time_fields_range:
  "0 \<le> HourFromTime t \<and> HourFromTime t \<le> 23"
  "0 \<le> MinFromTime t \<and> MinFromTime t \<le> 59"
  "0 \<le> SecFromTime t \<and> SecFromTime t \<le> 59"
  "0 \<le> msFromTime t \<and> msFromTime t \<le> 999"
  by (simp_all add: HourFromTime_def MinFromTime_def SecFromTime_def msFromTime_def)

lemma Day_range:
  assumes "\<bar>t\<bar> \<le> 8640000000000000"
  shows "- 100000000 \<le> Day t \<and> Day t \<le> 100000000"
proof -
  have "(- 8640000000000000) div msPerDay \<le> t div msPerDay"
    using assms by (intro zdiv_mono1) (simp_all add: msPerDay_def)
  moreover have "t div msPerDay \<le> 8640000000000000 div msPerDay"
    using assms by (intro zdiv_mono1) (simp_all add: msPerDay_def)
  ultimately show ?thesis by (simp add: Day_def msPerDay_def)
qed

lemma YearFromTime_range:
  assumes "\<bar>t\<bar> \<le> 8640000000000000"
  shows "- 999999 \<le> YearFromTime t \<and> YearFromTime t \<le> 999999"
proof -
  define y where "y = YearFromTime t"
  have b: "DayFromYear y \<le> Day t" "Day t < DayFromYear (y + 1)"
    using YearFromTime_bounds [of t] by (simp_all add: y_def)
  have d: "- 100000000 \<le> Day t" "Day t \<le> 100000000"
    using Day_range [OF assms] by simp_all
  have upper: "y \<le> 999999"
  proof (cases "1970 \<le> y")
    case True
    define k where "k = nat (y - 1970)"
    with True have k: "y = 1970 + int k" by simp
    with DayFromYear_after_1970 [of k] b d show ?thesis by simp
  next
    case False
    then show ?thesis by simp
  qed
  have lower: "- 999999 \<le> y"
  proof (cases "y + 1 \<le> 1970")
    case True
    define k where "k = nat (1970 - (y + 1))"
    with True have k: "y + 1 = 1970 - int k" by simp
    with DayFromYear_before_1970 [of k] b d show ?thesis by simp
  next
    case False
    then show ?thesis by simp
  qed
  from lower upper show ?thesis by (simp add: y_def)
qed

lemma expect_lit_end: "expect c (lit c) = Some []"
  using expect_lit [of c "[]"] by simp

lemma parse_date_time_string:
  assumes "\<bar>t\<bar> \<le> 8640000000000000"
  shows "parse_date_time (date_time_string t) =
           Some (YearFromTime t, nat (MonthFromTime t + 1), nat (DateFromTime t),
                 nat (HourFromTime t), nat (MinFromTime t), nat (SecFromTime t),
                 nat (msFromTime t))"
proof -
  have mo: "nat (MonthFromTime t + 1) < 10 ^ 2"
    using MonthFromTime_range [of t] by simp linarith
  have "days_in_month (YearFromTime t) (nat (MonthFromTime t + 1)) \<le> 31"
    by (simp add: days_in_month_def)
  then have da: "nat (DateFromTime t) < 10 ^ 2"
    using DateFromTime_range [of t] by simp linarith
  have ho: "nat (HourFromTime t) < 10 ^ 2" using time_fields_range(1) [of t] by simp linarith
  have mi: "nat (MinFromTime t) < 10 ^ 2" using time_fields_range(2) [of t] by simp linarith
  have se: "nat (SecFromTime t) < 10 ^ 2" using time_fields_range(3) [of t] by simp linarith
  have ms: "nat (msFromTime t) < 10 ^ 3" using time_fields_range(4) [of t] by simp linarith
  have ye: "\<And>r. signed_year (year_string (YearFromTime t) @ r) = Some (YearFromTime t, r)"
    using YearFromTime_range [OF assms] by (simp add: signed_year_string)
  show ?thesis
    unfolding parse_date_time_def date_time_string_def
    by (simp add: ye field_pad [OF mo] field_pad [OF da] field_pad [OF ho] field_pad [OF mi]
        field_pad [OF se] field_pad [OF ms] expect_lit expect_lit_end)
qed

lemma valid_date_time_string:
  assumes "\<bar>t\<bar> \<le> 8640000000000000"
  shows "valid_date_time (date_time_string t)"
proof -
  have "1 \<le> nat (MonthFromTime t + 1) \<and> nat (MonthFromTime t + 1) \<le> 12"
    using MonthFromTime_range [of t] by linarith
  moreover have "1 \<le> nat (DateFromTime t) \<and>
      nat (DateFromTime t) \<le> days_in_month (YearFromTime t) (nat (MonthFromTime t + 1))"
    using DateFromTime_range [of t] by linarith
  moreover have "nat (HourFromTime t) \<le> 23 \<and> nat (MinFromTime t) \<le> 59 \<and> nat (SecFromTime t) \<le> 59"
    using time_fields_range [of t] by linarith
  ultimately show ?thesis
    by (simp add: valid_date_time_def parse_date_time_string [OF assms])
qed

section \<open>The sample clock reading\<close>

lemma sample_day: "Day sample_clock = 20760"
  by (simp add: Day_def msPerDay_def sample_clock_def)

lemma sample_years: "DayFromYear 2027 = 20819" "DayFromYear 2026 = 20454"
  by (simp_all add: DayFromYear_def)

lemma sample_year: "YearFromTime sample_clock = 2026"
  unfolding YearFromTime_def sample_day Let_def
  by (subst year_search.simps) (simp add: sample_years)

lemma sample_time_fields:
  "HourFromTime sample_clock = 6"
  "MinFromTime sample_clock = 36"
  "SecFromTime sample_clock = 0"
  "msFromTime sample_clock = 123"
  by (simp_all add: HourFromTime_def MinFromTime_def SecFromTime_def msFromTime_def
      sample_clock_def)

lemma sample_day_within_year: "DayWithinYear sample_clock = 306"
  by (simp add: DayWithinYear_def sample_year sample_day sample_years)

lemma sample_leap: "InLeapYear sample_clock = 0"
  by (simp add: InLeapYear_def sample_year DaysInYear_def)

lemma sample_month: "MonthFromTime sample_clock = 10"
  by (simp add: MonthFromTime_def sample_day_within_year sample_leap)

lemma sample_date: "DateFromTime sample_clock = 3"
  by (simp add: DateFromTime_def sample_month sample_day_within_year sample_leap)

lemma pad_2: "pad 2 k = [digit (k div 10), digit k]"
proof -
  have "pad 2 k = pad (Suc (Suc 0)) k" by (simp only: numeral_2_eq_2)
  then show ?thesis by (simp add: digit_def)
qed

lemma pad_3: "pad 3 k = [digit (k div 10 div 10), digit (k div 10), digit k]"
proof -
  have "pad 3 k = pad (Suc (Suc (Suc 0))) k" by (simp only: numeral_3_eq_3)
  then show ?thesis by (simp add: digit_def)
qed

lemma pad_4: "pad 4 k = [digit (k div 10 div 10 div 10), digit (k div 10 div 10), digit (k div 10), digit k]"
proof -
  have "(4::nat) = Suc (Suc (Suc (Suc 0)))" by simp
  then have "pad 4 k = pad (Suc (Suc (Suc (Suc 0)))) k" by (simp only:)
  then show ?thesis by (simp add: digit_def)
qed

lemma sample_date_time_string:
  "date_time_string sample_clock = lit ''2026-11-03T06:36:00.123Z''"
  by (simp add: date_time_string_def sample_year sample_time_fields sample_month sample_date
      year_string_def pad_2 pad_3 pad_4 digit_def lit_def)

section \<open>The claims\<close>

text \<open>
  Claim C1, as amended. For every request that passes validation, whose prompt is
  composed, whose provider call resolves with a message whose first content block is a
  text block with text \<open>t\<close>, and whose log write is accepted by the store,
  \<open>askFollowup\<close> returns \<open>{success: true, response: t}\<close> and appends exactly one
  interaction record: the request's \<open>articleId\<close>, the question, \<open>responseLength\<close> equal
  to the length of \<open>t\<close>, the server-timestamp sentinel, and as \<open>userId\<close> the caller's
  \<open>uid\<close> when an auth context with a non-empty \<open>uid\<close> is present and \<open>anonymous\<close>
  otherwise.
\<close>

theorem askFollowup_success:
  assumes "destructure data = Inr (aid, qv, ac)"
    and "check_question qv = Inr q"
    and "userPrompt ac q = Inr p"
    and "create_reply sv (provider_request p) = Inr m"
    and "content_blocks m = TextBlock t # rest"
    and "add_rejects sv (interaction_record aid q (length t) ctx) = None"
  shows "fst (askFollowup sv data ctx w) = Inr \<lparr>success = True, response = t\<rparr>
       \<and> ai_interactions (snd (askFollowup sv data ctx w)) =
           ai_interactions w @
             [\<lparr>articleId = aid, question = qv, responseLength = length t,
               timestamp = ServerTimestamp,
               userId = (case auth ctx of
                           None \<Rightarrow> lit ''anonymous''
                         | Some a \<Rightarrow> if uid a = [] then lit ''anonymous'' else uid a)\<rparr>]"
proof -
  have qv: "qv = Str q" using assms(2) by (simp add: check_question_passes)
  have "first_text m = Inr (Some t)" using assms(5) by (rule first_text_TextBlock)
  from askFollowup_returns [OF assms(1-4) this assms(6)] show ?thesis
    by (simp add: interaction_record_def user_id_def qv)
qed

theorem askFollowup_success_witness:
  "fst (askFollowup answering_services sample_request signed_in_caller quiet_world)
     = Inr \<lparr>success = True, response = lit ''Answer text''\<rparr>
   \<and> ai_interactions (snd (askFollowup answering_services sample_request signed_in_caller quiet_world))
     = [\<lparr>articleId = Str (lit ''a1''), question = Str (lit ''Why?''), responseLength = 11,
         timestamp = ServerTimestamp, userId = lit ''u42''\<rparr>]
   \<and> ai_interactions (snd (askFollowup answering_services sample_request anonymous_caller quiet_world))
     = [\<lparr>articleId = Str (lit ''a1''), question = Str (lit ''Why?''), responseLength = 11,
         timestamp = ServerTimestamp, userId = lit ''anonymous''\<rparr>]"
  using askFollowup_success [OF sample_destructure sample_check sample_userPrompt,
      of answering_services "Message [TextBlock (lit ''Answer text'')]" "lit ''Answer text''" "[]"
         signed_in_caller quiet_world]
    askFollowup_success [OF sample_destructure sample_check sample_userPrompt,
      of answering_services "Message [TextBlock (lit ''Answer text'')]" "lit ''Answer text''" "[]"
         anonymous_caller quiet_world]
  by (simp add: answering_services_def quiet_world_def signed_in_caller_def anonymous_caller_def
      length_answer_text)
     (simp add: lit_def)

text \<open>
  Claim C1 as stated fails when the store rejects the write: the request passes
  validation and the provider call succeeds, yet the caller gets the internal error and
  no record is appended.
\<close>

theorem store_rejects_counterexample:
  "check_question (Str (lit ''Why?'')) = Inr (lit ''Why?'')
   \<and> create_reply store_down (provider_request sample_prompt)
       = Inr (Message [TextBlock (lit ''Answer text'')])
   \<and> provider_requests (snd (askFollowup store_down sample_request signed_in_caller quiet_world))
       = [provider_request sample_prompt]
   \<and> fst (askFollowup store_down sample_request signed_in_caller quiet_world)
       = Inl failed_to_generate
   \<and> ai_interactions (snd (askFollowup store_down sample_request signed_in_caller quiet_world)) = []"
  using askFollowup_store_rejects [OF sample_destructure sample_check sample_userPrompt,
      of store_down "Message [TextBlock (lit ''Answer text'')]" "lit ''Answer text''"
         signed_in_caller "lit ''unavailable''" quiet_world]
  by (simp add: sample_check store_down_def first_text_def quiet_world_def)

text \<open>
  Claim C2, as amended. Validation fails fast and in order, for every payload that is
  neither \<open>undefined\<close> nor \<open>null\<close>, so that line 30 reads its properties. If the
  payload's question is absent (\<open>undefined\<close> or \<open>null\<close>) or a string that is empty after
  trimming, \<open>askFollowup\<close> throws the invalid-argument error "Question is required".
  Otherwise, if the question is a string of more than 500 code units, it throws the
  invalid-argument error "Question too long (max 500 characters)". In both cases no
  request is sent to the provider and no interaction record is written.
\<close>

theorem validation_fails_fast:
  assumes "data \<noteq> Undefined" and "data \<noteq> Null"
    and "get data (lit ''question'') = Inr qv"
  shows "((qv = Undefined \<or> qv = Null \<or> (\<exists>s. qv = Str s \<and> trim s = [])) \<longrightarrow>
            fst (askFollowup sv data ctx w) = Inl question_required \<and>
            provider_requests (snd (askFollowup sv data ctx w)) = provider_requests w \<and>
            ai_interactions (snd (askFollowup sv data ctx w)) = ai_interactions w)
       \<and> ((\<exists>s. qv = Str s \<and> trim s \<noteq> [] \<and> length s > 500) \<longrightarrow>
            fst (askFollowup sv data ctx w) = Inl question_too_long \<and>
            provider_requests (snd (askFollowup sv data ctx w)) = provider_requests w \<and>
            ai_interactions (snd (askFollowup sv data ctx w)) = ai_interactions w)"
proof -
  from destructure_present [OF assms(1,2)] assms(3)
  obtain aid ac where d: "destructure data = Inr (aid, qv, ac)"
    by simp
  show ?thesis
  proof (intro conjI impI)
    assume "qv = Undefined \<or> qv = Null \<or> (\<exists>s. qv = Str s \<and> trim s = [])"
    then have "check_question qv = Inl question_required"
      by (auto simp: check_question_def)
    from askFollowup_check_throws [OF d this]
    show "fst (askFollowup sv data ctx w) = Inl question_required"
      and "provider_requests (snd (askFollowup sv data ctx w)) = provider_requests w"
      and "ai_interactions (snd (askFollowup sv data ctx w)) = ai_interactions w"
      by (simp_all add: catch_error_simps)
  next
    assume "\<exists>s. qv = Str s \<and> trim s \<noteq> [] \<and> length s > 500"
    then have "check_question qv = Inl question_too_long"
      by (auto simp: check_question_def)
    from askFollowup_check_throws [OF d this]
    show "fst (askFollowup sv data ctx w) = Inl question_too_long"
      and "provider_requests (snd (askFollowup sv data ctx w)) = provider_requests w"
      and "ai_interactions (snd (askFollowup sv data ctx w)) = ai_interactions w"
      by (simp_all add: catch_error_simps)
  qed
qed

theorem validation_fails_fast_witness:
  "fst (askFollowup answering_services blank_request anonymous_caller quiet_world)
     = Inl question_required
   \<and> provider_requests (snd (askFollowup answering_services blank_request anonymous_caller quiet_world)) = []
   \<and> ai_interactions (snd (askFollowup answering_services blank_request anonymous_caller quiet_world)) = []
   \<and> fst (askFollowup answering_services padded_request anonymous_caller quiet_world)
     = Inl question_too_long
   \<and> provider_requests (snd (askFollowup answering_services padded_request anonymous_caller quiet_world)) = []
   \<and> ai_interactions (snd (askFollowup answering_services padded_request anonymous_caller quiet_world)) = []"
proof -
  have b: "blank_request \<noteq> Undefined" "blank_request \<noteq> Null"
    "get blank_request (lit ''question'') = Inr (Str (lit ''   ''))"
    by (simp_all add: blank_request_def lit_def)
  have p: "padded_request \<noteq> Undefined" "padded_request \<noteq> Null"
    "get padded_request (lit ''question'') = Inr (Str padded_question)"
    by (simp_all add: padded_request_def lit_def)
  from validation_fails_fast [OF b, of answering_services anonymous_caller quiet_world]
    validation_fails_fast [OF p, of answering_services anonymous_caller quiet_world]
  show ?thesis
    by (simp add: trim_blank trim_padded_nonempty length_padded quiet_world_def)
qed

text \<open>
  Claim C2 as stated fails on the payload \<open>null\<close>, which carries no question: line 30
  throws inside the \<open>try\<close> block, and the caller gets the internal error "Failed to
  generate response" instead of "Question is required".
\<close>

theorem null_payload_counterexample:
  "get Null (lit ''question'') = Inl TypeError
   \<and> fst (askFollowup answering_services Null anonymous_caller quiet_world)
       = Inl failed_to_generate
   \<and> fst (askFollowup answering_services Null anonymous_caller quiet_world)
       \<noteq> Inl question_required"
  using askFollowup_destructure_throws [OF destructure_absent(2),
      of answering_services anonymous_caller quiet_world]
  by (simp add: catch_error_simps validation_errors_distinct(2) [THEN not_sym])

text \<open>
  Claim C3. Whatever is thrown inside the \<open>try\<close> block other than the two validation
  errors reaches the caller as the internal error "Failed to generate response", and the
  two validation errors reach the caller unchanged. In particular this holds for a
  failure of the prompt build, of the provider call and of the log write. When the
  provider call fails no interaction record is written, so any sequence of invocations
  whose provider calls all fail leaves the interaction log as it was.
\<close>

theorem failures_become_internal:
  "(\<forall>e w'. try_body sv data ctx w = (Inl e, w') \<longrightarrow>
      fst (askFollowup sv data ctx w) =
        Inl (if e = question_required \<or> e = question_too_long then e else failed_to_generate))
   \<and> (\<forall>aid qv ac q. destructure data = Inr (aid, qv, ac) \<and> check_question qv = Inr q \<longrightarrow>
        (\<forall>e. userPrompt ac q = Inl e \<longrightarrow>
           fst (askFollowup sv data ctx w) = Inl failed_to_generate) \<and>
        (\<forall>p x. userPrompt ac q = Inr p \<and> create_reply sv (provider_request p) = Inl x \<longrightarrow>
           fst (askFollowup sv data ctx w) = Inl failed_to_generate) \<and>
        (\<forall>p m t x. userPrompt ac q = Inr p \<and> create_reply sv (provider_request p) = Inr m \<and>
             first_text m = Inr (Some t) \<and>
             add_rejects sv (interaction_record aid q (length t) ctx) = Some x \<longrightarrow>
           fst (askFollowup sv data ctx w) = Inl failed_to_generate))
   \<and> (provider_call_fails sv data \<longrightarrow>
        fst (askFollowup sv data ctx w) = Inl failed_to_generate \<and>
        ai_interactions (snd (askFollowup sv data ctx w)) = ai_interactions w)
   \<and> ((\<forall>c \<in> set calls. provider_call_fails (fst c) (fst (snd c))) \<longrightarrow>
        ai_interactions (invocations calls w) = ai_interactions w)"
proof (intro conjI allI impI)
  fix e w' assume "try_body sv data ctx w = (Inl e, w')"
  from askFollowup_thrown [OF this]
  show "fst (askFollowup sv data ctx w) =
        Inl (if e = question_required \<or> e = question_too_long then e else failed_to_generate)"
    by simp
next
  fix aid qv ac q e
  assume "destructure data = Inr (aid, qv, ac) \<and> check_question qv = Inr q"
    and "userPrompt ac q = Inl e"
  then show "fst (askFollowup sv data ctx w) = Inl failed_to_generate"
    using askFollowup_prompt_throws [of data aid qv ac q e sv ctx w] userPrompt_error [of ac q e]
    by (simp add: catch_error_simps)
next
  fix aid qv ac q p x
  assume "destructure data = Inr (aid, qv, ac) \<and> check_question qv = Inr q"
    and "userPrompt ac q = Inr p \<and> create_reply sv (provider_request p) = Inl x"
  then show "fst (askFollowup sv data ctx w) = Inl failed_to_generate"
    using askFollowup_provider_rejects [of data aid qv ac q p sv x ctx w] by simp
next
  fix aid qv ac q p m t x
  assume "destructure data = Inr (aid, qv, ac) \<and> check_question qv = Inr q"
    and "userPrompt ac q = Inr p \<and> create_reply sv (provider_request p) = Inr m \<and>
         first_text m = Inr (Some t) \<and>
         add_rejects sv (interaction_record aid q (length t) ctx) = Some x"
  then show "fst (askFollowup sv data ctx w) = Inl failed_to_generate"
    using askFollowup_store_rejects [of data aid qv ac q p sv m t ctx x w] by simp
next
  assume "provider_call_fails sv data"
  then show "fst (askFollowup sv data ctx w) = Inl failed_to_generate"
    and "ai_interactions (snd (askFollowup sv data ctx w)) = ai_interactions w"
    using provider_call_fails_result by blast+
next
  assume "\<forall>c \<in> set calls. provider_call_fails (fst c) (fst (snd c))"
  then show "ai_interactions (invocations calls w) = ai_interactions w"
    by (rule invocations_provider_fails)
qed

theorem failures_become_internal_witness:
  "provider_call_fails provider_down sample_request
   \<and> fst (askFollowup provider_down sample_request anonymous_caller quiet_world)
       = Inl failed_to_generate
   \<and> ai_interactions (snd (askFollowup provider_down sample_request anonymous_caller quiet_world)) = []
   \<and> ai_interactions
       (invocations [(provider_down, sample_request, anonymous_caller),
                     (provider_down, sample_request, signed_in_caller)] quiet_world) = []
   \<and> fst (askFollowup store_down sample_request anonymous_caller quiet_world)
       = Inl failed_to_generate
   \<and> fst (askFollowup answering_services request_without_context anonymous_caller quiet_world)
       = Inl failed_to_generate"
  using failures_become_internal [of provider_down sample_request anonymous_caller quiet_world
      "[(provider_down, sample_request, anonymous_caller),
        (provider_down, sample_request, signed_in_caller)]"]
    failures_become_internal [of store_down sample_request anonymous_caller quiet_world "[]"]
    failures_become_internal [of answering_services request_without_context anonymous_caller quiet_world "[]"]
  by (simp add: sample_provider_call_fails sample_destructure sample_check sample_userPrompt
      without_context_destructure userPrompt_without_context
      store_down_def first_text_def quiet_world_def)



text \<open>
  Claim C5, as amended. For every request that passes validation and whose user prompt
  is composed (lines 51-60 do not throw), the provider is invoked exactly once, with the
  fixed model identifier, a maximum of 1024 output tokens, the fixed system prompt and a
  single message of role \<open>user\<close> whose content is the composed user prompt. The answer
  the handler returns is the text of the first content block of the provider's reply.
\<close>

theorem provider_invocation:
  assumes "destructure data = Inr (aid, qv, ac)"
    and "check_question qv = Inr q"
    and "userPrompt ac q = Inr p"
  shows "provider_requests (snd (askFollowup sv data ctx w)) =
           provider_requests w @
             [\<lparr>model = lit ''claude-sonnet-4-20250514'', max_tokens = 1024,
               messages = [\<lparr>role = lit ''user'', content = p\<rparr>],
               system = systemPrompt\<rparr>]
       \<and> (\<forall>r. fst (askFollowup sv data ctx w) = Inr r \<longrightarrow>
            (\<exists>m rest.
               create_reply sv
                 \<lparr>model = lit ''claude-sonnet-4-20250514'', max_tokens = 1024,
                  messages = [\<lparr>role = lit ''user'', content = p\<rparr>],
                  system = systemPrompt\<rparr> = Inr m
               \<and> content_blocks m = TextBlock (response r) # rest))"
proof (intro conjI allI impI)
  show "provider_requests (snd (askFollowup sv data ctx w)) =
           provider_requests w @
             [\<lparr>model = lit ''claude-sonnet-4-20250514'', max_tokens = 1024,
               messages = [\<lparr>role = lit ''user'', content = p\<rparr>],
               system = systemPrompt\<rparr>]"
    using assms
    by (simp add: askFollowup_def try_body_def Let_def provider_request_def
        split: sum.splits option.splits)
next
  fix r assume "fst (askFollowup sv data ctx w) = Inr r"
  then have "askFollowup sv data ctx w = (Inr r, snd (askFollowup sv data ctx w))"
    by (metis prod.collapse)
  from askFollowup_Inr_cases [OF this] assms
  obtain m t where "create_reply sv (provider_request p) = Inr m"
    and "first_text m = Inr (Some t)" and "r = \<lparr>success = True, response = t\<rparr>"
    by auto
  then show "\<exists>m rest.
               create_reply sv
                 \<lparr>model = lit ''claude-sonnet-4-20250514'', max_tokens = 1024,
                  messages = [\<lparr>role = lit ''user'', content = p\<rparr>],
                  system = systemPrompt\<rparr> = Inr m
               \<and> content_blocks m = TextBlock (response r) # rest"
    using first_text_Some [of m t] by (auto simp: provider_request_def)
qed

theorem provider_invocation_witness:
  "provider_requests (snd (askFollowup answering_services sample_request anonymous_caller quiet_world))
     = [\<lparr>model = lit ''claude-sonnet-4-20250514'', max_tokens = 1024,
         messages = [\<lparr>role = lit ''user'', content = sample_prompt\<rparr>],
         system = systemPrompt\<rparr>]
   \<and> fst (askFollowup answering_services sample_request anonymous_caller quiet_world)
     = Inr \<lparr>success = True, response = lit ''Answer text''\<rparr>
   \<and> provider_requests (snd (askFollowup provider_down sample_request anonymous_caller quiet_world))
     = [\<lparr>model = lit ''claude-sonnet-4-20250514'', max_tokens = 1024,
         messages = [\<lparr>role = lit ''user'', content = sample_prompt\<rparr>],
         system = systemPrompt\<rparr>]"
  using provider_invocation [OF sample_destructure sample_check sample_userPrompt,
      of answering_services anonymous_caller quiet_world]
    provider_invocation [OF sample_destructure sample_check sample_userPrompt,
      of provider_down anonymous_caller quiet_world]
    askFollowup_returns [OF sample_destructure sample_check sample_userPrompt,
      of answering_services "Message [TextBlock (lit ''Answer text'')]" "lit ''Answer text''"
         anonymous_caller quiet_world]
  by (simp add: quiet_world_def answering_services_def first_text_def)

text \<open>
  Claim C5 as stated fails for a request that passes validation and has no
  \<open>articleContext\<close>: composing the prompt throws before line 63, and the provider is
  not invoked.
\<close>

theorem provider_not_invoked_counterexample:
  "destructure request_without_context
     = Inr (Str (lit ''a1''), Str (lit ''Why?''), Undefined)
   \<and> check_question (Str (lit ''Why?'')) = Inr (lit ''Why?'')
   \<and> provider_requests
       (snd (askFollowup answering_services request_without_context signed_in_caller quiet_world))
     = provider_requests quiet_world
   \<and> provider_requests quiet_world = []"
  using askFollowup_prompt_throws [OF without_context_destructure sample_check
      userPrompt_without_context, of answering_services signed_in_caller quiet_world]
  by (simp add: without_context_destructure sample_check quiet_world_def)

text \<open>
  Claim C6, as amended. For any valid request for which the provider responds with
  content \<open>[{text: "Answer text"}]\<close> and whose log write is accepted, \<open>askFollowup\<close>
  returns \<open>{success: true, response: "Answer text"}\<close> and writes exactly one interaction
  record, with \<open>responseLength = 11\<close>: the text has eleven code units.
\<close>

theorem answer_text_logged:
  assumes "destructure data = Inr (aid, qv, ac)"
    and "check_question qv = Inr q"
    and "userPrompt ac q = Inr p"
    and "create_reply sv (provider_request p) = Inr (Message [TextBlock (lit ''Answer text'')])"
    and "add_rejects sv (interaction_record aid q 11 ctx) = None"
  shows "fst (askFollowup sv data ctx w) = Inr \<lparr>success = True, response = lit ''Answer text''\<rparr>
       \<and> length (ai_interactions (snd (askFollowup sv data ctx w)))
           = length (ai_interactions w) + 1
       \<and> map responseLength (ai_interactions (snd (askFollowup sv data ctx w)))
           = map responseLength (ai_interactions w) @ [11]"
proof -
  have "first_text (Message [TextBlock (lit ''Answer text'')]) = Inr (Some (lit ''Answer text''))"
    by (simp add: first_text_def)
  from askFollowup_returns [OF assms(1-4) this] assms(5) show ?thesis
    by (simp add: length_answer_text interaction_record_def)
qed

theorem answer_text_logged_witness:
  "fst (askFollowup answering_services sample_request anonymous_caller quiet_world)
     = Inr \<lparr>success = True, response = lit ''Answer text''\<rparr>
   \<and> length (ai_interactions (snd (askFollowup answering_services sample_request anonymous_caller quiet_world))) = 1
   \<and> map responseLength
       (ai_interactions (snd (askFollowup answering_services sample_request anonymous_caller quiet_world)))
     = [11]"
  using answer_text_logged [OF sample_destructure sample_check sample_userPrompt,
      of answering_services anonymous_caller quiet_world]
  by (simp add: answering_services_def quiet_world_def)

text \<open>
  Claim C6 as stated fails: the one record written for this reply has
  \<open>responseLength\<close> 11, not 12.
\<close>

theorem response_length_counterexample:
  "fst (askFollowup answering_services sample_request anonymous_caller quiet_world)
     = Inr \<lparr>success = True, response = lit ''Answer text''\<rparr>
   \<and> map responseLength
       (ai_interactions (snd (askFollowup answering_services sample_request anonymous_caller quiet_world)))
     = [11]
   \<and> map responseLength
       (ai_interactions (snd (askFollowup answering_services sample_request anonymous_caller quiet_world)))
     \<noteq> [12]"
  using askFollowup_returns [OF sample_destructure sample_check sample_userPrompt,
      of answering_services "Message [TextBlock (lit ''Answer text'')]" "lit ''Answer text''"
         anonymous_caller quiet_world]
  by (simp add: answering_services_def quiet_world_def first_text_def length_answer_text
      interaction_record_def)

text \<open>
  Claim C7, as amended. The bound of 500 is on the untrimmed question: for every request
  whose question is a string that is not empty after trimming and has at most 500 code
  units before trimming, validation passes, that is, neither "Question is required" nor
  "Question too long (max 500 characters)" is thrown.
\<close>

theorem validation_passes_up_to_500_untrimmed:
  assumes "destructure data = Inr (aid, Str s, ac)"
    and "trim s \<noteq> []"
    and "length s \<le> 500"
  shows "check_question (Str s) = Inr s
       \<and> fst (askFollowup sv data ctx w) \<noteq> Inl question_required
       \<and> fst (askFollowup sv data ctx w) \<noteq> Inl question_too_long"
proof -
  from assms(2) have "s \<noteq> []" by (auto simp: trim_def)
  with assms(2,3) have ok: "check_question (Str s) = Inr s"
    by (simp add: check_question_def)
  from askFollowup_after_checks [OF assms(1) ok, of sv ctx w] ok show ?thesis
    by (auto simp: validation_errors_distinct)
qed

theorem validation_passes_up_to_500_untrimmed_witness:
  "check_question (Str (lit ''Why?'')) = Inr (lit ''Why?'')
   \<and> fst (askFollowup answering_services sample_request anonymous_caller quiet_world)
       \<noteq> Inl question_required
   \<and> fst (askFollowup answering_services sample_request anonymous_caller quiet_world)
       \<noteq> Inl question_too_long"
  using validation_passes_up_to_500_untrimmed [OF sample_destructure,
      of answering_services anonymous_caller quiet_world]
  by (simp add: trim_def lit_def is_whitespace_def)

text \<open>
  Claim C7 as stated fails: the letter \<open>a\<close> followed by 500 spaces has trimmed length
  1, and the handler throws "Question too long (max 500 characters)".
\<close>

theorem trimmed_length_counterexample:
  "length (trim padded_question) = 1
   \<and> length padded_question = 501
   \<and> fst (askFollowup answering_services padded_request anonymous_caller quiet_world)
       = Inl question_too_long"
proof -
  have "check_question (Str padded_question) = Inl question_too_long"
    by (simp add: check_question_def trim_padded_nonempty length_padded)
       (simp add: padded_question_def)
  from askFollowup_check_throws [OF padded_destructure this,
      of answering_services anonymous_caller quiet_world]
  show ?thesis
    by (simp add: trim_padded length_padded catch_error_simps) (simp add: lit_def)
qed

text \<open>
  Claim C8, as amended. For every request that passes question validation and whose
  \<open>articleContext\<close> is present (neither \<open>undefined\<close> nor \<open>null\<close>), prompt composition
  does not fail when nested fields are absent. Precisely: when headline, source and
  summary are each absent or a primitive value (a string, a number, a boolean or
  \<open>null\<close>), and \<open>bullets\<close> is absent, \<open>null\<close> or an array whose items are present and
  have a \<open>text\<close> that is absent or a primitive value, the prompt is composed and the
  handler goes on to call the provider. Absent bullets render as
  \<open>No bullet points available\<close>; an absent headline, source or summary renders as
  \<open>undefined\<close>.
\<close>

theorem prompt_composed_when_context_present:
  assumes "get ac (lit ''headline'') = Inr h" and "primitive h"
    and "get ac (lit ''source'') = Inr s" and "primitive s"
    and "get ac (lit ''summary'') = Inr m" and "primitive m"
    and "get ac (lit ''bullets'') = Inr Undefined \<or> get ac (lit ''bullets'') = Inr Null
         \<or> (\<exists>bs. get ac (lit ''bullets'') = Inr (Arr bs) \<and> list_all plain_bullet bs)"
  shows "(\<exists>p. userPrompt ac q = Inr p \<and>
            (destructure data = Inr (aid, qv, ac) \<and> check_question qv = Inr q \<longrightarrow>
               provider_requests (snd (askFollowup sv data ctx w)) =
                 provider_requests w @ [provider_request p]))
       \<and> (get ac (lit ''bullets'') = Inr Undefined \<longrightarrow>
            key_points ac = Inr (lit ''No bullet points available''))
       \<and> (h = Undefined \<longrightarrow> interpolate ac (lit ''headline'') = Inr (lit ''undefined''))
       \<and> (s = Undefined \<longrightarrow> interpolate ac (lit ''source'') = Inr (lit ''undefined''))
       \<and> (m = Undefined \<longrightarrow> interpolate ac (lit ''summary'') = Inr (lit ''undefined''))"
proof -
  from assms(1,2) obtain hs where hs: "interpolate ac (lit ''headline'') = Inr hs"
    using primitive_to_string [of h] by (auto simp: interpolate_def)
  from assms(3,4) obtain ss where ss: "interpolate ac (lit ''source'') = Inr ss"
    using primitive_to_string [of s] by (auto simp: interpolate_def)
  from assms(5,6) obtain ms where ms: "interpolate ac (lit ''summary'') = Inr ms"
    using primitive_to_string [of m] by (auto simp: interpolate_def)
  from assms(7) obtain b where b: "key_points ac = Inr b"
    using plain_bullet_lines by (fastforce simp: key_points_def Let_def)
  from hs ss ms b obtain p where p: "userPrompt ac q = Inr p"
    by (simp add: userPrompt_def)
  have "destructure data = Inr (aid, qv, ac) \<and> check_question qv = Inr q \<longrightarrow>
               provider_requests (snd (askFollowup sv data ctx w)) =
                 provider_requests w @ [provider_request p]"
    using p by (simp add: askFollowup_def try_body_def Let_def split: sum.splits option.splits)
  with p have first: "\<exists>p. userPrompt ac q = Inr p \<and>
            (destructure data = Inr (aid, qv, ac) \<and> check_question qv = Inr q \<longrightarrow>
               provider_requests (snd (askFollowup sv data ctx w)) =
                 provider_requests w @ [provider_request p])"
    by blast
  have second: "get ac (lit ''bullets'') = Inr Undefined \<longrightarrow>
            key_points ac = Inr (lit ''No bullet points available'')"
    using key_points_absent [of ac] by (simp add: no_bullets_def)
  from assms(1,3,5) first second show ?thesis
    by (simp add: interpolate_def)
qed

theorem prompt_composed_when_context_present_witness:
  "userPrompt (Obj []) (lit ''Why?'') =
     Inr (lit ''Article Context:\<newline>Headline: undefined\<newline>Source: undefined\<newline>Summary: undefined\<newline>Key Points:\<newline>No bullet points available\<newline>\<newline>User Question: Why?\<newline>\<newline>Please provide a helpful, expert-level response to this question about the mining news article.'')
   \<and> key_points (Obj []) = Inr (lit ''No bullet points available'')
   \<and> interpolate (Obj []) (lit ''headline'') = Inr (lit ''undefined'')"
proof -
  from prompt_composed_when_context_present [of "Obj []" Undefined Undefined Undefined "lit ''Why?''"]
  have kp: "key_points (Obj []) = Inr (lit ''No bullet points available'')"
    and hl: "interpolate (Obj []) (lit ''headline'') = Inr (lit ''undefined'')"
    and sl: "interpolate (Obj []) (lit ''source'') = Inr (lit ''undefined'')"
    and ml: "interpolate (Obj []) (lit ''summary'') = Inr (lit ''undefined'')"
    by simp_all
  then have "userPrompt (Obj []) (lit ''Why?'') =
     Inr (lit ''Article Context:\<newline>Headline: undefined\<newline>Source: undefined\<newline>Summary: undefined\<newline>Key Points:\<newline>No bullet points available\<newline>\<newline>User Question: Why?\<newline>\<newline>Please provide a helpful, expert-level response to this question about the mining news article.'')"
    by (simp add: userPrompt_def) (simp add: lit_def)
  with kp hl show ?thesis by simp
qed

text \<open>
  Claim C8 as stated fails when \<open>articleContext\<close> itself is absent: reading
  \<open>articleContext.headline\<close> throws, no provider call is made, and the caller gets the
  internal error.
\<close>

theorem absent_context_counterexample:
  "check_question (Str (lit ''Why?'')) = Inr (lit ''Why?'')
   \<and> get request_without_context (lit ''articleContext'') = Inr Undefined
   \<and> userPrompt Undefined (lit ''Why?'') = Inl TypeError
   \<and> fst (askFollowup answering_services request_without_context anonymous_caller quiet_world)
       = Inl failed_to_generate
   \<and> provider_requests
       (snd (askFollowup answering_services request_without_context anonymous_caller quiet_world)) = []"
  using askFollowup_prompt_throws [OF without_context_destructure sample_check
      userPrompt_without_context, of answering_services anonymous_caller quiet_world]
  by (simp add: sample_check userPrompt_without_context catch_error_simps quiet_world_def)
     (simp add: request_without_context_def lit_def)

text \<open>
  Claim C9. The write of the interaction record is awaited before the reply is returned.
  Whenever \<open>askFollowup\<close> returns a reply, the record has been appended and the store has
  accepted it. When the provider call has succeeded with text \<open>t\<close>, the caller gets
  \<open>{success: true, response: t}\<close> if the store accepts the write, and the internal
  error "Failed to generate response" (and no response text, and no record) if the store
  rejects it.
\<close>

theorem log_write_awaited:
  "(\<forall>r w'. askFollowup sv data ctx w = (Inr r, w') \<longrightarrow>
      (\<exists>doc. ai_interactions w' = ai_interactions w @ [doc]
             \<and> add_rejects sv doc = None
             \<and> responseLength doc = length (response r)))
   \<and> (\<forall>aid qv ac q p m t rest x.
        destructure data = Inr (aid, qv, ac) \<and> check_question qv = Inr q \<and>
        userPrompt ac q = Inr p \<and> create_reply sv (provider_request p) = Inr m \<and>
        content_blocks m = TextBlock t # rest \<longrightarrow>
          (add_rejects sv (interaction_record aid q (length t) ctx) = None \<longrightarrow>
             fst (askFollowup sv data ctx w) = Inr \<lparr>success = True, response = t\<rparr> \<and>
             ai_interactions (snd (askFollowup sv data ctx w)) =
               ai_interactions w @ [interaction_record aid q (length t) ctx]) \<and>
          (add_rejects sv (interaction_record aid q (length t) ctx) = Some x \<longrightarrow>
             fst (askFollowup sv data ctx w) = Inl failed_to_generate \<and>
             ai_interactions (snd (askFollowup sv data ctx w)) = ai_interactions w))"
proof (intro conjI allI impI)
  fix r w' assume "askFollowup sv data ctx w = (Inr r, w')"
  from askFollowup_Inr_cases [OF this]
  show "\<exists>doc. ai_interactions w' = ai_interactions w @ [doc]
             \<and> add_rejects sv doc = None
             \<and> responseLength doc = length (response r)"
    by (auto simp: interaction_record_def)
next
  fix aid qv ac q p m t rest x
  assume pre: "destructure data = Inr (aid, qv, ac) \<and> check_question qv = Inr q \<and>
        userPrompt ac q = Inr p \<and> create_reply sv (provider_request p) = Inr m \<and>
        content_blocks m = TextBlock t # rest"
  then have ft: "first_text m = Inr (Some t)" by (simp add: first_text_TextBlock)
  {
    assume "add_rejects sv (interaction_record aid q (length t) ctx) = None"
    with pre ft
    have "askFollowup sv data ctx w =
       (Inr \<lparr>success = True, response = t\<rparr>,
        w\<lparr>provider_requests := provider_requests w @ [provider_request p],
          ai_interactions := ai_interactions w @ [interaction_record aid q (length t) ctx]\<rparr>)"
      by (intro askFollowup_returns) auto
    then show "fst (askFollowup sv data ctx w) = Inr \<lparr>success = True, response = t\<rparr>"
      and "ai_interactions (snd (askFollowup sv data ctx w)) =
               ai_interactions w @ [interaction_record aid q (length t) ctx]"
      by simp_all
  }
  {
    assume "add_rejects sv (interaction_record aid q (length t) ctx) = Some x"
    with pre ft
    have "askFollowup sv data ctx w =
       (Inl failed_to_generate,
        w\<lparr>provider_requests := provider_requests w @ [provider_request p],
          console_errors := console_errors w @ [ExternalError x]\<rparr>)"
      by (intro askFollowup_store_rejects) auto
    then show "fst (askFollowup sv data ctx w) = Inl failed_to_generate"
      and "ai_interactions (snd (askFollowup sv data ctx w)) = ai_interactions w"
      by simp_all
  }
qed

theorem log_write_awaited_witness:
  "fst (askFollowup store_down sample_request anonymous_caller quiet_world)
     = Inl failed_to_generate
   \<and> ai_interactions (snd (askFollowup store_down sample_request anonymous_caller quiet_world)) = []
   \<and> fst (askFollowup answering_services sample_request anonymous_caller quiet_world)
     = Inr \<lparr>success = True, response = lit ''Answer text''\<rparr>
   \<and> ai_interactions (snd (askFollowup answering_services sample_request anonymous_caller quiet_world))
     = [interaction_record (Str (lit ''a1'')) (lit ''Why?'') 11 anonymous_caller]"
  using log_write_awaited [of store_down sample_request anonymous_caller quiet_world]
    log_write_awaited [of answering_services sample_request anonymous_caller quiet_world]
  by (simp add: sample_destructure sample_check sample_userPrompt store_down_def
      answering_services_def quiet_world_def length_answer_text)

text \<open>
  Claim C10. For every request, and for every reading of the clock that is a time value
  (at most \<open>8.64e15\<close> milliseconds from the epoch either way), \<open>healthCheck\<close> does not
  throw and answers with a payload whose \<open>status\<close> is exactly \<open>ok\<close> and whose
  \<open>timestamp\<close> is a valid ISO-8601 date-time string, naming the year, month, day and
  time of day of the clock's reading. The handler reads no state.
\<close>

theorem healthCheck_ok:
  assumes "\<bar>clock\<bar> \<le> 8640000000000000"
  shows "healthCheck clock req =
           Inr \<lparr>status = lit ''ok'', health_payload.timestamp = date_time_string clock\<rparr>
       \<and> valid_date_time (date_time_string clock)
       \<and> parse_date_time (date_time_string clock) =
           Some (YearFromTime clock, nat (MonthFromTime clock + 1), nat (DateFromTime clock),
                 nat (HourFromTime clock), nat (MinFromTime clock), nat (SecFromTime clock),
                 nat (msFromTime clock))"
proof -
  have "healthCheck clock req =
           Inr \<lparr>status = lit ''ok'', health_payload.timestamp = date_time_string clock\<rparr>"
    by (simp add: healthCheck_def toISOString_def)
  with valid_date_time_string [OF assms] parse_date_time_string [OF assms]
  show ?thesis by simp
qed

theorem healthCheck_ok_witness:
  "healthCheck sample_clock Null =
     Inr \<lparr>status = lit ''ok'', health_payload.timestamp = lit ''2026-11-03T06:36:00.123Z''\<rparr>
   \<and> valid_date_time (lit ''2026-11-03T06:36:00.123Z'')
   \<and> parse_date_time (lit ''2026-11-03T06:36:00.123Z'') = Some (2026, 11, 3, 6, 36, 0, 123)"
proof -
  have "\<bar>sample_clock\<bar> \<le> 8640000000000000"
    by (simp add: sample_clock_def)
  from healthCheck_ok [OF this, of Null] show ?thesis
    by (simp add: sample_date_time_string sample_year sample_month sample_date
        sample_time_fields)
qed

end
